theory Spec2Isabelle
  imports Complex_Main "HOL-Library.Log_Nat"
begin

section \<open>Numbers and property lookup of the source language\<close>

text \<open>
  The engine is JavaScript; its numbers are IEEE doubles. The functions of the engine are
  read here in exact arithmetic: a finite double is a real number, and the non-finite
  values are kept where exact arithmetic on finite inputs can produce them, at a division
  by zero (\<open>x / 0\<close> is an infinity, \<open>0 / 0\<close> is \<open>NaN\<close>) and at an inverse cosine outside
  \<open>[-1, 1]\<close>. This reading carries the structure of the code (which value goes where,
  which test guards which push, what is written to which record); it does not carry
  rounding. Where rounding decides, the sidereal time is read a second time at double
  precision (\<open>getLocalSiderealTime_double\<close>), with every operation rounded as IEEE 754
  prescribes. The trigonometric functions of \<open>Math\<close> are not correctly rounded and have no
  double-precision reading here.
\<close>

datatype jsnum = NaN | NegInf | Fin real | PosInf

text \<open>
  The remainder operator \<open>a % b\<close> truncates the quotient towards zero, so the result has
  the sign of the dividend. Every call site of the engine has \<open>b = 360\<close>.
\<close>

definition js_rem :: "real \<Rightarrow> real \<Rightarrow> real" where
  "js_rem x y = x - y * of_int (if 0 \<le> x / y then \<lfloor>x / y\<rfloor> else \<lceil>x / y\<rceil>)"

definition js_div :: "real \<Rightarrow> real \<Rightarrow> jsnum" where
  "js_div x y =
     (if y \<noteq> 0 then Fin (x / y)
      else if 0 < x then PosInf
      else if x < 0 then NegInf
      else NaN)"

text \<open>\<open>Math.min(c, v)\<close> and \<open>Math.max(c, v)\<close> for a finite constant \<open>c\<close>.\<close>

fun js_min :: "real \<Rightarrow> jsnum \<Rightarrow> jsnum" where
  "js_min c NaN = NaN"
| "js_min c NegInf = NegInf"
| "js_min c (Fin v) = Fin (min c v)"
| "js_min c PosInf = Fin c"

fun js_max :: "real \<Rightarrow> jsnum \<Rightarrow> jsnum" where
  "js_max c NaN = NaN"
| "js_max c NegInf = Fin c"
| "js_max c (Fin v) = Fin (max c v)"
| "js_max c PosInf = PosInf"

fun js_acos :: "jsnum \<Rightarrow> jsnum" where
  "js_acos (Fin v) = (if -1 \<le> v \<and> v \<le> 1 then Fin (arccos v) else NaN)"
| "js_acos _ = NaN"

text \<open>
  \<open>Math.atan2(y, x)\<close> on finite arguments: the angle of the point \<open>(x, y)\<close> in
  \<open>(-\<pi>, \<pi>]\<close>, and \<open>0\<close> at the origin.
\<close>

definition atan2 :: "real \<Rightarrow> real \<Rightarrow> real" where
  "atan2 y x =
     (if 0 < x then arctan (y / x)
      else if x < 0 then (if 0 \<le> y then arctan (y / x) + pi else arctan (y / x) - pi)
      else if 0 < y then pi / 2
      else if y < 0 then - (pi / 2)
      else 0)"

text \<open>
  Reading \<open>obj[key]\<close> on an object literal finds the literal's own entries first and
  then the members every object inherits from \<open>Object.prototype\<close>; any other key reads as
  \<open>undefined\<close>. An inherited member is a function or an object, hence truthy.
\<close>

datatype 'a jsval = Undefined | Val 'a | Proto string

definition Object_prototype :: "string list" where
  "Object_prototype =
     [''constructor'', ''__defineGetter__'', ''__defineSetter__'', ''hasOwnProperty'',
      ''__lookupGetter__'', ''__lookupSetter__'', ''isPrototypeOf'',
      ''propertyIsEnumerable'', ''toString'', ''valueOf'', ''__proto__'',
      ''toLocaleString'']"

definition js_get :: "(string \<times> 'a) list \<Rightarrow> string \<Rightarrow> 'a jsval" where
  "js_get obj k =
     (case map_of obj k of
        Some v \<Rightarrow> Val v
      | None \<Rightarrow> if List.member Object_prototype k then Proto k else Undefined)"

text \<open>Truthiness of a looked-up number: \<open>undefined\<close> and \<open>0\<close> are falsy.\<close>

fun truthy_num :: "real jsval \<Rightarrow> bool" where
  "truthy_num Undefined = False"
| "truthy_num (Val v) = (v \<noteq> 0)"
| "truthy_num (Proto k) = True"

fun truthy :: "'a jsval \<Rightarrow> bool" where
  "truthy Undefined = False"
| "truthy (Val v) = True"
| "truthy (Proto k) = True"

section \<open>astronomy.js: class Astronomy\<close>

definition J2000 :: real where
  "J2000 = 2451545.0"

definition deg2rad :: "real \<Rightarrow> real" where
  "deg2rad deg = deg * pi / 180"

definition rad2deg :: "real \<Rightarrow> real" where
  "rad2deg rad = rad * 180 / pi"

text \<open>\<open>getJulianDate(date)\<close>, from the milliseconds \<open>date.getTime()\<close>.\<close>

definition getJulianDate :: "real \<Rightarrow> real" where
  "getJulianDate ms = (ms / 86400000) + 2440587.5"

definition getLocalSiderealTime :: "real \<Rightarrow> real \<Rightarrow> real" where
  "getLocalSiderealTime jd longitude =
     (let T = (jd - J2000) / 36525;
          theta0 = 280.46061837 + 360.98564736629 * (jd - J2000) +
                   0.000387933 * T * T - T * T * T / 38710000;
          lst = js_rem (theta0 + longitude) 360
      in if lst < 0 then lst + 360 else lst)"

subsection \<open>The sidereal time at double precision\<close>

text \<open>
  A double has a significand of 53 bits. For \<open>x \<noteq> 0\<close> with \<open>2 ^ e \<le> \<bar>x\<bar> < 2 ^ (e + 1)\<close> the
  doubles around \<open>x\<close> are the multiples of \<open>2 ^ (e - 52)\<close>, and IEEE 754 rounds \<open>x\<close> to the
  nearest of them, to the one with an even significand in a tie. The exponent \<open>e\<close> is
  computed from the bit length of an integer. Overflow and subnormal numbers (above
  \<open>2 ^ 1024\<close>, below \<open>2 ^ - 1022\<close>) are not modelled.
\<close>

definition double_exponent :: "real \<Rightarrow> int" where
  "double_exponent x =
     (if 1 \<le> \<bar>x\<bar> then bitlen \<lfloor>\<bar>x\<bar>\<rfloor> - 1 else - bitlen (\<lceil>1 / \<bar>x\<bar>\<rceil> - 1))"

definition pow2 :: "int \<Rightarrow> real" where
  "pow2 k = (if 0 \<le> k then 2 ^ nat k else 1 / 2 ^ nat (- k))"

definition round_half_even :: "real \<Rightarrow> int" where
  "round_half_even x =
     (let f = \<lfloor>x\<rfloor>
      in if x - of_int f < 1 / 2 then f
         else if 1 / 2 < x - of_int f then f + 1
         else if even f then f else f + 1)"

definition round_double :: "real \<Rightarrow> real" where
  "round_double x =
     (if x = 0 then 0
      else let ulp = pow2 (double_exponent x - 52)
           in of_int (round_half_even (x / ulp)) * ulp)"

text \<open>
  \<open>getLocalSiderealTime\<close> on doubles \<open>jd\<close> and \<open>longitude\<close>: every decimal literal of the
  source is the double nearest to it, and every \<open>+\<close>, \<open>-\<close>, \<open>*\<close> and \<open>/\<close> is rounded, in the order
  in which the expression is evaluated (\<open>*\<close> and \<open>/\<close> before \<open>+\<close> and \<open>-\<close>, from the left). The
  integers \<open>2451545\<close>, \<open>36525\<close>, \<open>38710000\<close> and \<open>360\<close> are doubles, and the remainder \<open>%\<close> of two
  doubles is a double, so it is not rounded.
\<close>

definition getLocalSiderealTime_double :: "real \<Rightarrow> real \<Rightarrow> real" where
  "getLocalSiderealTime_double jd longitude =
     (let d = round_double (jd - 2451545.0);
          T = round_double (d / 36525);
          theta0 =
            round_double
              (round_double
                 (round_double
                    (round_double 280.46061837 +
                     round_double (round_double 360.98564736629 * d)) +
                  round_double (round_double (round_double 0.000387933 * T) * T)) -
               round_double (round_double (round_double (T * T) * T) / 38710000));
          lst = js_rem (round_double (theta0 + longitude)) 360
      in if lst < 0 then round_double (lst + 360) else lst)"

subsection \<open>Coordinates\<close>

text \<open>
  \<open>{altitude, azimuth}\<close> and \<open>{ra, dec}\<close>; the equatorial fields carry the prefix \<open>eq_\<close>.
\<close>

record horizontal =
  altitude :: real
  azimuth :: jsnum

record equatorial =
  eq_ra :: real
  eq_dec :: real

fun js_rad2deg :: "jsnum \<Rightarrow> jsnum" where
  "js_rad2deg (Fin v) = Fin (rad2deg v)"
| "js_rad2deg v = v"

text \<open>\<open>c - v\<close> for a finite constant \<open>c\<close>.\<close>

fun js_minus :: "real \<Rightarrow> jsnum \<Rightarrow> jsnum" where
  "js_minus c NaN = NaN"
| "js_minus c NegInf = PosInf"
| "js_minus c (Fin v) = Fin (c - v)"
| "js_minus c PosInf = NegInf"

text \<open>
  \<open>Math.asin(sinAlt)\<close> is \<open>NaN\<close> outside \<open>[-1, 1]\<close>; in exact arithmetic \<open>sinAlt\<close> never
  leaves that interval (lemma \<open>sinAlt_bounded\<close> below), so the altitude is a real number
  in this reading. In doubles \<open>sinAlt\<close> can round to a value just above 1, and the
  divisor of \<open>cosAz\<close>, which is exactly zero here at a pole or at the zenith, is then a
  very small number instead: what is proved below about the values of this function
  holds in exact arithmetic.
\<close>

definition equatorialToHorizontal :: "real \<Rightarrow> real \<Rightarrow> real \<Rightarrow> real \<Rightarrow> real \<Rightarrow> horizontal" where
  "equatorialToHorizontal ra dec lat lon jd =
     (let lst = getLocalSiderealTime jd lon;
          ha = lst - ra;
          latRad = deg2rad lat;
          haRad = deg2rad ha;
          decRad = deg2rad dec;
          sinAlt = sin decRad * sin latRad + cos decRad * cos latRad * cos haRad;
          alt = rad2deg (arcsin sinAlt);
          cosAz = js_div (sin decRad - sin latRad * sinAlt)
                         (cos latRad * cos (arcsin sinAlt));
          az = js_rad2deg (js_acos (js_max (-1) (js_min 1 cosAz)))
      in \<lparr>altitude = alt,
          azimuth = (if sin haRad > 0 then js_minus 360 az else az)\<rparr>)"

definition getSunPosition :: "real \<Rightarrow> equatorial" where
  "getSunPosition jd =
     (let n = jd - J2000;
          L = js_rem (280.460 + 0.9856474 * n) 360;
          g = deg2rad (js_rem (357.528 + 0.9856003 * n) 360);
          lambda = L + 1.915 * sin g + 0.020 * sin (2 * g);
          epsilon = 23.439 - 0.0000004 * n;
          ra = rad2deg (atan2
                 (cos (deg2rad epsilon) * sin (deg2rad lambda))
                 (cos (deg2rad lambda)));
          dec = rad2deg (arcsin (sin (deg2rad epsilon) * sin (deg2rad lambda)))
      in \<lparr>eq_ra = js_rem (ra + 360) 360, eq_dec = dec\<rparr>)"

definition getMoonPosition :: "real \<Rightarrow> equatorial" where
  "getMoonPosition jd =
     (let n = jd - J2000;
          L = js_rem (218.316 + 13.176396 * n) 360;
          M = js_rem (134.963 + 13.064993 * n) 360;
          F = js_rem (93.272 + 13.229350 * n) 360;
          lambda = L + 6.289 * sin (deg2rad M);
          beta = 5.128 * sin (deg2rad F);
          epsilon = 23.439 - 0.0000004 * n;
          ra = rad2deg (atan2
                 (sin (deg2rad lambda) * cos (deg2rad epsilon) -
                  tan (deg2rad beta) * sin (deg2rad epsilon))
                 (cos (deg2rad lambda)));
          dec = rad2deg (arcsin
                 (sin (deg2rad beta) * cos (deg2rad epsilon) +
                  cos (deg2rad beta) * sin (deg2rad epsilon) * sin (deg2rad lambda)))
      in \<lparr>eq_ra = js_rem (ra + 360) 360, eq_dec = dec\<rparr>)"

definition getMoonPhase :: "real \<Rightarrow> real" where
  "getMoonPhase jd =
     (let sun = getSunPosition jd;
          moon = getMoonPosition jd;
          phase0 = eq_ra moon - eq_ra sun;
          phase = (if phase0 < 0 then phase0 + 360 else phase0);
          illumination = (1 - cos (deg2rad phase)) / 2
      in illumination)"

subsection \<open>Planets\<close>

text \<open>
  The orbital elements \<open>{L0, w, i, a, e}\<close> of a planet; the fields carry the prefix
  \<open>el_\<close> here.
\<close>

record elements =
  el_L0 :: real
  el_w :: real
  el_i :: real
  el_a :: real
  el_e :: real

definition planets_table :: "(string \<times> elements) list" where
  "planets_table =
     [(''Mercury'', \<lparr>el_L0 = 252.25, el_w = 4.09233, el_i = 7.00, el_a = 0.387, el_e = 0.206\<rparr>),
      (''Venus'', \<lparr>el_L0 = 181.98, el_w = 1.60214, el_i = 3.39, el_a = 0.723, el_e = 0.007\<rparr>),
      (''Mars'', \<lparr>el_L0 = 355.43, el_w = 0.52407, el_i = 1.85, el_a = 1.524, el_e = 0.093\<rparr>),
      (''Jupiter'', \<lparr>el_L0 = 34.35, el_w = 0.08309, el_i = 1.31, el_a = 5.203, el_e = 0.048\<rparr>),
      (''Saturn'', \<lparr>el_L0 = 50.08, el_w = 0.03346, el_i = 2.49, el_a = 9.537, el_e = 0.054\<rparr>)]"

definition magnitudes :: "(string \<times> real) list" where
  "magnitudes =
     [(''Mercury'', 0.0), (''Venus'', -4.0), (''Mars'', 0.5), (''Jupiter'', -2.5),
      (''Saturn'', 0.5)]"

text \<open>\<open>return magnitudes[planet] || 5\<close>.\<close>

definition getPlanetMagnitude :: "string \<Rightarrow> real jsval" where
  "getPlanetMagnitude planet =
     (let m = js_get magnitudes planet in if truthy_num m then m else Val 5)"

text \<open>
  The result of \<open>getPlanetPosition\<close>: \<open>null\<close>, or an object \<open>{ra, dec, magnitude}\<close>.
  When \<open>planets[planet]\<close> is an inherited member, its fields \<open>L0\<close>, \<open>w\<close> and \<open>i\<close> read as
  \<open>undefined\<close>, so \<open>ra\<close> and \<open>dec\<close> are both \<open>NaN\<close>: that object is \<open>NaNs magnitude\<close>.
\<close>

record planet_position =
  planet_ra :: real
  planet_dec :: real
  planet_magnitude :: "real jsval"

datatype planet_result = Null | Found planet_position | NaNs "real jsval"

definition getPlanetPosition :: "string \<Rightarrow> real \<Rightarrow> planet_result" where
  "getPlanetPosition planet jd =
     (let n = jd - J2000 in
      if \<not> truthy (js_get planets_table planet) then Null
      else
        case js_get planets_table planet of
          Val p \<Rightarrow>
            (let L = js_rem (el_L0 p + el_w p * n) 360;
                 M = deg2rad L;
                 ra = L;
                 dec = sin (deg2rad (el_i p)) * sin M * 10
             in Found \<lparr>planet_ra = ra, planet_dec = dec,
                        planet_magnitude = getPlanetMagnitude planet\<rparr>)
        | _ \<Rightarrow> NaNs (getPlanetMagnitude planet))"

subsection \<open>Star catalog and constellation lines\<close>

definition STAR_CATALOG :: "(string \<times> real \<times> real \<times> real \<times> string) list" where
  "STAR_CATALOG =
     [(''Sirius'', 6.752, -16.716, -1.46, ''A1V''),
      (''Canopus'', 6.399, -52.696, -0.72, ''F0Ib''),
      (''Arcturus'', 14.261, 19.182, -0.04, ''K1.5III''),
      (''Rigel Kentaurus'', 14.661, -60.833, -0.01, ''G2V''),
      (''Vega'', 18.615, 38.783, 0.03, ''A0V''),
      (''Capella'', 5.278, 45.998, 0.08, ''G8III''),
      (''Rigel'', 5.242, -8.202, 0.12, ''B8Ia''),
      (''Procyon'', 7.655, 5.225, 0.38, ''F5IV''),
      (''Achernar'', 1.629, -57.237, 0.46, ''B3V''),
      (''Betelgeuse'', 5.919, 7.407, 0.50, ''M2Iab''),
      (''Hadar'', 14.063, -60.373, 0.61, ''B1III''),
      (''Altair'', 19.846, 8.868, 0.77, ''A7V''),
      (''Aldebaran'', 4.599, 16.509, 0.85, ''K5III''),
      (''Spica'', 13.420, -11.161, 1.04, ''B1V''),
      (''Antares'', 16.490, -26.432, 1.09, ''M1.5Iab''),
      (''Pollux'', 7.755, 28.026, 1.14, ''K0III''),
      (''Fomalhaut'', 22.961, -29.622, 1.16, ''A3V''),
      (''Deneb'', 20.690, 45.280, 1.25, ''A2Ia''),
      (''Mimosa'', 12.795, -59.689, 1.30, ''B0.5III''),
      (''Regulus'', 10.139, 11.967, 1.35, ''B7V''),
      (''Adhara'', 6.977, -28.972, 1.50, ''B2II''),
      (''Castor'', 7.577, 31.888, 1.57, ''A1V''),
      (''Shaula'', 17.560, -37.104, 1.62, ''B2IV''),
      (''Bellatrix'', 5.419, 6.350, 1.64, ''B2III''),
      (''Elnath'', 5.438, 28.608, 1.65, ''B7III''),
      (''Miaplacidus'', 9.220, -69.717, 1.68, ''A2IV''),
      (''Alnilam'', 5.603, -1.202, 1.69, ''B0Ia''),
      (''Alnitak'', 5.679, -1.943, 1.70, ''O9Ib''),
      (''Alnair'', 22.137, -46.961, 1.74, ''B7IV''),
      (''Alioth'', 12.900, 55.960, 1.77, ''A0pCr''),
      (''Dubhe'', 11.062, 61.751, 1.79, ''K1III''),
      (''Mirfak'', 3.405, 49.861, 1.79, ''F5Ib''),
      (''Wezen'', 7.140, -26.393, 1.84, ''F8Ia''),
      (''Alkaid'', 13.792, 49.313, 1.86, ''B3V''),
      (''Sargas'', 17.621, -42.998, 1.87, ''F1II''),
      (''Avior'', 8.375, -59.509, 1.86, ''K3III''),
      (''Menkalinan'', 6.008, 44.947, 1.90, ''A2V''),
      (''Atria'', 16.811, -69.028, 1.92, ''K2IIb''),
      (''Alhena'', 6.628, 16.399, 1.93, ''A0IV''),
      (''Peacock'', 20.427, -56.735, 1.94, ''B2IV''),
      (''Polaris'', 2.530, 89.264, 1.98, ''F7Ib''),
      (''Mirzam'', 6.378, -17.956, 1.98, ''B1II''),
      (''Alphard'', 9.460, -8.659, 1.98, ''K3II''),
      (''Hamal'', 2.120, 23.462, 2.00, ''K2III''),
      (''Kaus Australis'', 18.403, -34.385, 2.02, ''B9.5III''),
      (''Algieba'', 10.332, 19.842, 2.08, ''K1III''),
      (''Diphda'', 0.726, -17.987, 2.04, ''K0III''),
      (''Nunki'', 18.921, -26.297, 2.05, ''B2.5V''),
      (''Mizar'', 13.397, 54.925, 2.04, ''A2V''),
      (''Scheat'', 23.063, 28.083, 2.42, ''M2.5II'')]"

definition CONSTELLATIONS :: "(string \<times> nat list list) list" where
  "CONSTELLATIONS =
     [(''Ursa Major'', [[0, 30], [30, 33], [33, 29], [29, 0], [30, 48]]),
      (''Orion'', [[6, 9, 24], [24, 26, 27], [9, 26]]),
      (''Cassiopeia'', [[40, 41, 46, 50, 51]]),
      (''Leo'', [[19, 44]]),
      (''Scorpius'', [[14, 43, 23]])]"

definition raHoursToDegrees :: "real \<Rightarrow> real" where
  "raHoursToDegrees hours = hours * 15"

text \<open>
  A processed star \<open>{id, name, ra, dec, magnitude, spectralClass}\<close>; the fields carry the
  prefix \<open>star_\<close>. The application later stores \<open>altitude\<close> and \<open>azimuth\<close> on the same
  object: they are absent (\<open>None\<close>) on a fresh record.
\<close>

record star =
  star_id :: nat
  star_name :: string
  star_ra :: real
  star_dec :: real
  star_magnitude :: real
  star_spectralClass :: string
  star_altitude :: "real option"
  star_azimuth :: "jsnum option"

definition getStars :: "star list" where
  "getStars =
     map (\<lambda>(index, (nm, ra_h, de, mag, sp)).
            \<lparr>star_id = index, star_name = nm, star_ra = raHoursToDegrees ra_h,
             star_dec = de, star_magnitude = mag, star_spectralClass = sp,
             star_altitude = None, star_azimuth = None\<rparr>)
         (enumerate 0 STAR_CATALOG)"

text \<open>\<open>this.stars[starIndex]\<close>: \<open>undefined\<close> (\<open>None\<close>) when the index is out of range.\<close>

definition star_at :: "star list \<Rightarrow> nat \<Rightarrow> star option" where
  "star_at stars idx = (if idx < length stars then Some (stars ! idx) else None)"

section \<open>The query facades\<close>

subsection \<open>Sorting by magnitude\<close>

text \<open>
  An entry of \<open>visibleObjects\<close> or \<open>allObjects\<close>; the fields carry the prefix \<open>obj_\<close>, and a
  field that a variant does not set is \<open>None\<close>. The magnitude of a planet is whatever
  \<open>getPlanetMagnitude\<close> returned.
\<close>

record sky_object =
  obj_type :: string
  obj_name :: string
  obj_magnitude :: "real jsval"
  obj_altitude :: real
  obj_azimuth :: jsnum
  obj_phase :: "real option"
  obj_spectralClass :: "string option"
  obj_catalogIndex :: "nat option"

text \<open>The comparator \<open>(a, b) => a.magnitude - b.magnitude\<close>.\<close>

fun js_sub :: "real jsval \<Rightarrow> real jsval \<Rightarrow> jsnum" where
  "js_sub (Val x) (Val y) = Fin (x - y)"
| "js_sub _ _ = NaN"

definition compare_magnitude :: "sky_object \<Rightarrow> sky_object \<Rightarrow> jsnum" where
  "compare_magnitude x y = js_sub (obj_magnitude x) (obj_magnitude y)"

text \<open>
  \<open>Array.prototype.sort(comparefn)\<close> is stable, and reads a \<open>NaN\<close> from the comparator as
  \<open>0\<close>. For a comparator that is a consistent ordering the sorted, stable arrangement is
  unique; it is computed here by insertion from the right, where an element goes in front
  of the first element it does not compare greater than.
\<close>

fun not_after :: "jsnum \<Rightarrow> bool" where
  "not_after NaN = True"
| "not_after NegInf = True"
| "not_after (Fin v) = (v \<le> 0)"
| "not_after PosInf = False"

fun sort_insert :: "('a \<Rightarrow> 'a \<Rightarrow> jsnum) \<Rightarrow> 'a \<Rightarrow> 'a list \<Rightarrow> 'a list" where
  "sort_insert comparefn x [] = [x]"
| "sort_insert comparefn x (y # ys) =
     (if not_after (comparefn x y) then x # y # ys else y # sort_insert comparefn x ys)"

definition js_sort :: "('a \<Rightarrow> 'a \<Rightarrow> jsnum) \<Rightarrow> 'a list \<Rightarrow> 'a list" where
  "js_sort comparefn xs = foldr (sort_insert comparefn) xs []"

subsection \<open>app.js: class NightSkyApp\<close>

text \<open>
  The fields of the application that \<open>calculateVisibleObjects\<close> reads or writes.
  \<open>this.planets\<close> is assigned once, in the constructor, and is a constant here.
\<close>

record night_sky_app =
  latitude :: real
  longitude :: real
  alpha :: real
  beta :: real
  compassOffset :: real
  fov :: real
  stars :: "star list"
  visibleObjects :: "sky_object list"

definition planets :: "string list" where
  "planets = [''Mercury'', ''Venus'', ''Mars'', ''Jupiter'', ''Saturn'']"

text \<open>
  \<open>angleDifference(a, b)\<close>: two loops bring the difference down by 360 while it is above
  180, then up by 360 while it is below -180.
\<close>

function angleDifference_down :: "real \<Rightarrow> real" where
  "angleDifference_down diff =
     (if diff > 180 then angleDifference_down (diff - 360) else diff)"
  by pat_completeness auto
termination
proof (relation "measure (\<lambda>d. nat \<lceil>d / 360\<rceil>)")
  show "wf (measure (\<lambda>d::real. nat \<lceil>d / 360\<rceil>))" by simp
next
  fix diff :: real
  assume d: "180 < diff"
  have "(diff - 360) / 360 = diff / 360 - 1" by (simp add: field_simps)
  then have e: "\<lceil>(diff - 360) / 360\<rceil> = \<lceil>diff / 360\<rceil> - 1"
    by (simp only: ceiling_diff_one)
  have p: "0 < \<lceil>diff / 360\<rceil>" using d by (simp add: ceiling_less_iff)
  have "nat (\<lceil>diff / 360\<rceil> - 1) < nat \<lceil>diff / 360\<rceil>" using p by linarith
  then show "(diff - 360, diff) \<in> measure (\<lambda>d. nat \<lceil>d / 360\<rceil>)"
    by (simp only: in_measure e)
qed

function angleDifference_up :: "real \<Rightarrow> real" where
  "angleDifference_up diff =
     (if diff < -180 then angleDifference_up (diff + 360) else diff)"
  by pat_completeness auto
termination
proof (relation "measure (\<lambda>d. nat \<lceil>(0 - d) / 360\<rceil>)")
  show "wf (measure (\<lambda>d::real. nat \<lceil>(0 - d) / 360\<rceil>))" by simp
next
  fix diff :: real
  assume d: "diff < - 180"
  have "(0 - (diff + 360)) / 360 = (0 - diff) / 360 - 1" by (simp add: field_simps)
  then have e: "\<lceil>(0 - (diff + 360)) / 360\<rceil> = \<lceil>(0 - diff) / 360\<rceil> - 1"
    by (simp only: ceiling_diff_one)
  have p: "0 < \<lceil>(0 - diff) / 360\<rceil>" using d by (simp add: ceiling_less_iff)
  have "nat (\<lceil>(0 - diff) / 360\<rceil> - 1) < nat \<lceil>(0 - diff) / 360\<rceil>" using p by linarith
  then show "(diff + 360, diff) \<in> measure (\<lambda>d. nat \<lceil>(0 - d) / 360\<rceil>)"
    by (simp only: in_measure e)
qed

definition angleDifference :: "real \<Rightarrow> real \<Rightarrow> real" where
  "angleDifference x y = angleDifference_up (angleDifference_down (x - y))"

text \<open>
  The test \<open>azDiff < this.fov && altDiff < this.fov\<close> on a position, written three times in
  \<open>calculateVisibleObjects\<close>. On a \<open>NaN\<close> azimuth both loops of \<open>angleDifference\<close> are skipped
  and the comparison with \<open>fov\<close> is false; an infinite azimuth does not occur (lemma
  \<open>azimuth_not_infinite\<close> below).
\<close>

definition in_field_of_view :: "night_sky_app \<Rightarrow> horizontal \<Rightarrow> bool" where
  "in_field_of_view app pos =
     (let viewAzimuth = js_rem (alpha app + compassOffset app) 360;
          viewAltitude = 90 - \<bar>beta app\<bar>
      in case azimuth pos of
           Fin az \<Rightarrow>
             (let azDiff = \<bar>angleDifference az viewAzimuth\<bar>;
                  altDiff = \<bar>altitude pos - viewAltitude\<bar>
              in azDiff < fov app \<and> altDiff < fov app)
         | _ \<Rightarrow> False)"

text \<open>
  The three parts of \<open>calculateVisibleObjects\<close>, each giving the objects it pushes, in the
  order it pushes them; \<open>jd\<close> is the Julian Date the function computes first.
\<close>

definition visible_stars :: "real \<Rightarrow> night_sky_app \<Rightarrow> sky_object list" where
  "visible_stars jd app =
     concat (map (\<lambda>star.
        let pos = equatorialToHorizontal (star_ra star) (star_dec star)
                    (latitude app) (longitude app) jd
        in if altitude pos > 0 then
             (if in_field_of_view app pos then
                [\<lparr>obj_type = ''star'', obj_name = star_name star,
                  obj_magnitude = Val (star_magnitude star),
                  obj_altitude = altitude pos, obj_azimuth = azimuth pos,
                  obj_phase = None, obj_spectralClass = None, obj_catalogIndex = None\<rparr>]
              else [])
           else [])
       (stars app))"

text \<open>
  A planet object whose \<open>ra\<close> and \<open>dec\<close> are \<open>NaN\<close> has a \<open>NaN\<close> altitude, which is not
  \<open>> 0\<close>: nothing is pushed for it.
\<close>

definition visible_planets :: "real \<Rightarrow> night_sky_app \<Rightarrow> sky_object list" where
  "visible_planets jd app =
     concat (map (\<lambda>planetName.
        case getPlanetPosition planetName jd of
          Null \<Rightarrow> []
        | NaNs m \<Rightarrow> []
        | Found planet \<Rightarrow>
            (let pos = equatorialToHorizontal (planet_ra planet) (planet_dec planet)
                         (latitude app) (longitude app) jd
             in if altitude pos > 0 then
                  (if in_field_of_view app pos then
                     [\<lparr>obj_type = ''planet'', obj_name = planetName,
                       obj_magnitude = planet_magnitude planet,
                       obj_altitude = altitude pos, obj_azimuth = azimuth pos,
                       obj_phase = None, obj_spectralClass = None,
                       obj_catalogIndex = None\<rparr>]
                   else [])
                else []))
       planets)"

definition visible_moon :: "real \<Rightarrow> night_sky_app \<Rightarrow> sky_object list" where
  "visible_moon jd app =
     (let moon = getMoonPosition jd;
          moonPos = equatorialToHorizontal (eq_ra moon) (eq_dec moon)
                      (latitude app) (longitude app) jd
      in if altitude moonPos > 0 then
           (if in_field_of_view app moonPos then
              (let phase = getMoonPhase jd
               in [\<lparr>obj_type = ''moon'', obj_name = ''Moon'',
                     obj_magnitude = Val (-12.74),
                     obj_altitude = altitude moonPos, obj_azimuth = azimuth moonPos,
                     obj_phase = Some phase, obj_spectralClass = None,
                     obj_catalogIndex = None\<rparr>])
            else [])
         else [])"

text \<open>
  \<open>calculateVisibleObjects()\<close>, at the clock reading \<open>now\<close> (milliseconds): besides building
  and sorting \<open>visibleObjects\<close>, the loop over the stars stores the computed position on
  every star record (\<open>star.altitude = pos.altitude; star.azimuth = pos.azimuth\<close>).
\<close>

definition calculateVisibleObjects :: "real \<Rightarrow> night_sky_app \<Rightarrow> night_sky_app" where
  "calculateVisibleObjects now app =
     (let jd = getJulianDate now
      in app\<lparr>stars :=
               map (\<lambda>star.
                      let pos = equatorialToHorizontal (star_ra star) (star_dec star)
                                  (latitude app) (longitude app) jd
                      in star\<lparr>star_altitude := Some (altitude pos),
                               star_azimuth := Some (azimuth pos)\<rparr>)
                   (stars app),
             visibleObjects :=
               js_sort compare_magnitude
                 (visible_stars jd app @ visible_planets jd app @ visible_moon jd app)\<rparr>)"

subsection \<open>The sky map: class NightSkyMapZoom\<close>

text \<open>
  The fields that \<open>calculateAllObjects\<close> reads or writes, with the prefix \<open>map_\<close>; the
  planet names are the same constant list.
\<close>

record night_sky_map =
  map_latitude :: real
  map_longitude :: real
  map_stars :: "star list"
  allObjects :: "sky_object list"

definition all_stars :: "real \<Rightarrow> night_sky_map \<Rightarrow> sky_object list" where
  "all_stars jd app =
     concat (map (\<lambda>star.
        let pos = equatorialToHorizontal (star_ra star) (star_dec star)
                    (map_latitude app) (map_longitude app) jd
        in if altitude pos > 0 then
             [\<lparr>obj_type = ''star'', obj_name = star_name star,
               obj_magnitude = Val (star_magnitude star),
               obj_altitude = altitude pos, obj_azimuth = azimuth pos,
               obj_phase = None, obj_spectralClass = Some (star_spectralClass star),
               obj_catalogIndex = Some (star_id star)\<rparr>]
           else [])
       (map_stars app))"

definition all_planets :: "real \<Rightarrow> night_sky_map \<Rightarrow> sky_object list" where
  "all_planets jd app =
     concat (map (\<lambda>planetName.
        case getPlanetPosition planetName jd of
          Null \<Rightarrow> []
        | NaNs m \<Rightarrow> []
        | Found planet \<Rightarrow>
            (let pos = equatorialToHorizontal (planet_ra planet) (planet_dec planet)
                         (map_latitude app) (map_longitude app) jd
             in if altitude pos > 0 then
                  [\<lparr>obj_type = ''planet'', obj_name = planetName,
                    obj_magnitude = planet_magnitude planet,
                    obj_altitude = altitude pos, obj_azimuth = azimuth pos,
                    obj_phase = None, obj_spectralClass = None, obj_catalogIndex = None\<rparr>]
                else []))
       planets)"

definition all_moon :: "real \<Rightarrow> night_sky_map \<Rightarrow> sky_object list" where
  "all_moon jd app =
     (let moon = getMoonPosition jd;
          moonPos = equatorialToHorizontal (eq_ra moon) (eq_dec moon)
                      (map_latitude app) (map_longitude app) jd
      in if altitude moonPos > 0 then
           (let phase = getMoonPhase jd
            in [\<lparr>obj_type = ''moon'', obj_name = ''Moon'',
                  obj_magnitude = Val (-12.74),
                  obj_altitude = altitude moonPos, obj_azimuth = azimuth moonPos,
                  obj_phase = Some phase, obj_spectralClass = None,
                  obj_catalogIndex = None\<rparr>])
         else [])"

definition calculateAllObjects :: "real \<Rightarrow> night_sky_map \<Rightarrow> night_sky_map" where
  "calculateAllObjects now app =
     (let jd = getJulianDate now
      in app\<lparr>allObjects :=
               js_sort compare_magnitude
                 (all_stars jd app @ all_planets jd app @ all_moon jd app)\<rparr>)"

subsection \<open>The latitude check of the specification\<close>



section \<open>Planet magnitudes\<close>

lemma getPlanetMagnitude_table:
  "getPlanetMagnitude ''Venus'' = Val (-4.0)"
  "getPlanetMagnitude ''Mars'' = Val 0.5"
  "getPlanetMagnitude ''Jupiter'' = Val (-2.5)"
  "getPlanetMagnitude ''Saturn'' = Val 0.5"
  by (simp_all add: getPlanetMagnitude_def js_get_def magnitudes_def)

text \<open>
  C1. The magnitude table holds \<open>0.0\<close> for Mercury, but the lookup
  \<open>magnitudes[planet] || 5\<close> treats that \<open>0.0\<close> as falsy: \<open>getPlanetMagnitude\<close> and the
  \<open>magnitude\<close> field of \<open>getPlanetPosition\<close> are \<open>5\<close> for Mercury, not the table constant.
\<close>

theorem C1_mercury_magnitude_is_default:
  "map_of magnitudes ''Mercury'' = Some 0.0 \<and>
   getPlanetMagnitude ''Mercury'' = Val 5 \<and>
   (\<exists>p. getPlanetPosition ''Mercury'' jd = Found p \<and> planet_magnitude p = Val 5)"
  by (simp add: getPlanetMagnitude_def getPlanetPosition_def js_get_def magnitudes_def
      planets_table_def Let_def)

section \<open>Constellation indices\<close>

lemma length_STAR_CATALOG: "length STAR_CATALOG = 50"
  by (simp add: STAR_CATALOG_def)

lemma length_getStars: "length getStars = 50"
  by (simp add: getStars_def length_STAR_CATALOG)

text \<open>
  C10. The catalog has 50 entries (indices 0 to 49), and the line of Cassiopeia names the
  indices 50 and 51: they resolve to no star record.
\<close>

theorem C10_cassiopeia_indices_out_of_range:
  "length STAR_CATALOG = 50 \<and>
   map_of CONSTELLATIONS ''Cassiopeia'' = Some [[40, 41, 46, 50, 51]] \<and>
   star_at getStars 50 = None \<and> star_at getStars 51 = None"
  by (simp add: length_STAR_CATALOG length_getStars star_at_def CONSTELLATIONS_def)

section \<open>Remainder and sidereal time\<close>

lemma js_rem_cong: "\<exists>k::int. js_rem x y = x - y * of_int k"
  unfolding js_rem_def by blast

lemma js_rem_nonneg:
  assumes "0 \<le> x" "0 < y"
  shows "0 \<le> js_rem x y \<and> js_rem x y < y"
proof -
  have q: "0 \<le> x / y" using assms by simp
  have lo: "of_int \<lfloor>x / y\<rfloor> \<le> x / y" by simp
  have hi: "x / y < of_int \<lfloor>x / y\<rfloor> + 1" by linarith
  have yq: "y * (x / y) = x" using assms(2) by simp
  have "y * of_int \<lfloor>x / y\<rfloor> \<le> y * (x / y)"
    using lo assms(2) by (intro mult_left_mono) auto
  then have a: "y * of_int \<lfloor>x / y\<rfloor> \<le> x" by (simp only: yq)
  have "y * (x / y) < y * (of_int \<lfloor>x / y\<rfloor> + 1)"
    using hi assms(2) by (intro mult_strict_left_mono) auto
  then have b: "x < y * of_int \<lfloor>x / y\<rfloor> + y" by (simp only: yq distrib_left mult_1_right)
  have "js_rem x y = x - y * of_int \<lfloor>x / y\<rfloor>" using q by (simp add: js_rem_def)
  with a b show ?thesis by linarith
qed

lemma js_rem_neg:
  assumes "x < 0" "0 < y"
  shows "- y < js_rem x y \<and> js_rem x y \<le> 0"
proof -
  have q: "\<not> 0 \<le> x / y" using assms by (simp add: divide_less_0_iff not_le)
  have hi: "x / y \<le> of_int \<lceil>x / y\<rceil>" by simp
  have lo: "of_int \<lceil>x / y\<rceil> - 1 < x / y" by linarith
  have yq: "y * (x / y) = x" using assms(2) by simp
  have "y * (x / y) \<le> y * of_int \<lceil>x / y\<rceil>"
    using hi assms(2) by (intro mult_left_mono) auto
  then have a: "x \<le> y * of_int \<lceil>x / y\<rceil>" by (simp only: yq)
  have "y * (of_int \<lceil>x / y\<rceil> - 1) < y * (x / y)"
    using lo assms(2) by (intro mult_strict_left_mono) auto
  then have b: "y * of_int \<lceil>x / y\<rceil> - y < x"
    by (simp only: yq right_diff_distrib mult_1_right)
  have "js_rem x y = x - y * of_int \<lceil>x / y\<rceil>" using q by (simp add: js_rem_def)
  with a b show ?thesis by linarith
qed

lemma js_rem_360_bounds: "- 360 < js_rem x 360 \<and> js_rem x 360 < 360"
  using js_rem_nonneg [of x 360] js_rem_neg [of x 360] by (cases "0 \<le> x") auto

lemma norm360_range:
  "0 \<le> (let r = js_rem x 360 in if r < 0 then r + 360 else r) \<and>
   (let r = js_rem x 360 in if r < 0 then r + 360 else r) < 360"
  using js_rem_360_bounds [of x] by (simp add: Let_def)

text \<open>
  In exact arithmetic the sidereal time is the polynomial \<open>theta0\<close> with the fixed
  coefficients plus the longitude, reduced by a whole multiple of 360 into the half-open
  interval \<open>[0, 360)\<close>.
\<close>

lemma getLocalSiderealTime_exact_range:
  "(\<exists>k::int. getLocalSiderealTime jd lon =
      280.46061837 + 360.98564736629 * (jd - 2451545.0)
        + 0.000387933 * ((jd - 2451545.0) / 36525) * ((jd - 2451545.0) / 36525)
        - ((jd - 2451545.0) / 36525) * ((jd - 2451545.0) / 36525) * ((jd - 2451545.0) / 36525)
          / 38710000
        + lon + 360 * of_int k) \<and>
   0 \<le> getLocalSiderealTime jd lon \<and> getLocalSiderealTime jd lon < 360"
proof -
  define th where "th = 280.46061837 + 360.98564736629 * (jd - 2451545.0)
        + 0.000387933 * ((jd - 2451545.0) / 36525) * ((jd - 2451545.0) / 36525)
        - ((jd - 2451545.0) / 36525) * ((jd - 2451545.0) / 36525) * ((jd - 2451545.0) / 36525)
          / 38710000"
  have lst: "getLocalSiderealTime jd lon =
      (let r = js_rem (th + lon) 360 in if r < 0 then r + 360 else r)"
    unfolding getLocalSiderealTime_def J2000_def Let_def th_def by (rule refl)
  obtain k :: int where k: "js_rem (th + lon) 360 = th + lon - 360 * of_int k"
    using js_rem_cong by blast
  have "\<exists>k::int. getLocalSiderealTime jd lon = th + lon + 360 * of_int k"
  proof (cases "js_rem (th + lon) 360 < 0")
    case True
    then have "getLocalSiderealTime jd lon = th + lon + 360 * of_int (1 - k)"
      using k by (simp add: lst Let_def)
    then show ?thesis by blast
  next
    case False
    then have "getLocalSiderealTime jd lon = th + lon + 360 * of_int (- k)"
      using k by (simp add: lst Let_def)
    then show ?thesis by blast
  qed
  moreover have "0 \<le> getLocalSiderealTime jd lon \<and> getLocalSiderealTime jd lon < 360"
    unfolding lst by (rule norm360_range)
  ultimately show ?thesis unfolding th_def by blast
qed

section \<open>The sidereal time at double precision\<close>

lemma round_half_even_nearest: "\<bar>of_int (round_half_even x) - x\<bar> \<le> 1 / 2"
  unfolding round_half_even_def Let_def
  by (auto simp: abs_if not_less) linarith+

lemma pow2_pos: "0 < pow2 k"
  by (simp add: pow2_def)

lemma pow2_Suc: "pow2 (k + 1) = 2 * pow2 k"
proof (cases "0 \<le> k")
  case True
  then show ?thesis by (simp add: pow2_def nat_add_distrib)
next
  case False
  then have "nat (- k) = Suc (nat (- (k + 1)))" by simp
  then show ?thesis using False by (simp add: pow2_def)
qed

text \<open>The exponent is the one of the binade of \<open>x\<close>.\<close>

lemma double_exponent_bounds:
  assumes "x \<noteq> 0"
  shows "pow2 (double_exponent x) \<le> \<bar>x\<bar> \<and> \<bar>x\<bar> < pow2 (double_exponent x + 1)"
proof (cases "1 \<le> \<bar>x\<bar>")
  case True
  define n where "n = \<lfloor>\<bar>x\<bar>\<rfloor>"
  have n: "0 < n" using True by (simp add: n_def)
  have e: "double_exponent x = bitlen n - 1" using True by (simp add: double_exponent_def n_def)
  have b1: "1 \<le> bitlen n" using n by (simp add: bitlen_alt_def)
  from bitlen_bounds [OF n] have lo: "2 ^ nat (bitlen n - 1) \<le> n" and hi: "n < 2 ^ nat (bitlen n)"
    by blast+
  have "(2::real) ^ nat (bitlen n - 1) \<le> of_int n"
    using lo by (metis of_int_le_iff of_int_numeral of_int_power)
  also have "\<dots> \<le> \<bar>x\<bar>" by (simp add: n_def)
  finally have 1: "pow2 (double_exponent x) \<le> \<bar>x\<bar>" using b1 by (simp add: e pow2_def)
  have "n + 1 \<le> 2 ^ nat (bitlen n)" using hi by simp
  then have "of_int (n + 1) \<le> (2::real) ^ nat (bitlen n)"
    by (metis of_int_le_iff of_int_numeral of_int_power)
  moreover have "\<bar>x\<bar> < of_int (n + 1)" unfolding n_def by linarith
  ultimately have 2: "\<bar>x\<bar> < pow2 (double_exponent x + 1)" using b1 by (simp add: e pow2_def)
  from 1 2 show ?thesis by blast
next
  case False
  define y where "y = 1 / \<bar>x\<bar>"
  define m where "m = \<lceil>y\<rceil> - 1"
  have xp: "0 < \<bar>x\<bar>" using assms by simp
  have y1: "1 < y" using False xp by (simp add: y_def)
  have m: "0 < m" using y1 by (simp add: m_def less_ceiling_iff)
  have e: "double_exponent x = - bitlen m" using False by (simp add: double_exponent_def m_def y_def)
  have b1: "1 \<le> bitlen m" using m by (simp add: bitlen_alt_def)
  from bitlen_bounds [OF m] have lo: "2 ^ nat (bitlen m - 1) \<le> m" and hi: "m < 2 ^ nat (bitlen m)"
    by blast+
  have my: "of_int m < y" "y \<le> of_int m + 1" unfolding m_def by linarith+
  have "m + 1 \<le> 2 ^ nat (bitlen m)" using hi by simp
  then have "of_int (m + 1) \<le> (2::real) ^ nat (bitlen m)"
    by (metis of_int_le_iff of_int_numeral of_int_power)
  then have yle: "y \<le> 2 ^ nat (bitlen m)" using my by simp
  have "(2::real) ^ nat (bitlen m - 1) \<le> of_int m"
    using lo by (metis of_int_le_iff of_int_numeral of_int_power)
  then have ygt: "2 ^ nat (bitlen m - 1) < y" using my by linarith
  have xy: "\<bar>x\<bar> = 1 / y" using xp by (simp add: y_def)
  have 1: "pow2 (double_exponent x) \<le> \<bar>x\<bar>"
  proof -
    have "1 / 2 ^ nat (bitlen m) \<le> 1 / y"
      using yle y1 by (intro divide_left_mono) auto
    then show ?thesis using b1 by (simp add: e pow2_def xy)
  qed
  have 2: "\<bar>x\<bar> < pow2 (double_exponent x + 1)"
  proof -
    have "1 / y < 1 / 2 ^ nat (bitlen m - 1)"
      using ygt y1 by (intro divide_strict_left_mono) auto
    moreover have "pow2 (- bitlen m + 1) = 1 / 2 ^ nat (bitlen m - 1)"
      using b1 by (cases "bitlen m = 1") (auto simp: pow2_def algebra_simps)
    ultimately show ?thesis by (simp add: e xy)
  qed
  from 1 2 show ?thesis by blast
qed

text \<open>
  The rounded value is a multiple of the unit in the last place, at most half a unit away.
\<close>

lemma round_double_nearest:
  assumes "x \<noteq> 0"
  shows "\<exists>k::int. round_double x = of_int k * pow2 (double_exponent x - 52) \<and>
           \<bar>round_double x - x\<bar> \<le> pow2 (double_exponent x - 52) / 2"
proof -
  define u where "u = pow2 (double_exponent x - 52)"
  have u: "0 < u" unfolding u_def by (rule pow2_pos)
  have r: "round_double x = of_int (round_half_even (x / u)) * u"
    using assms by (simp add: round_double_def u_def Let_def)
  have "\<bar>of_int (round_half_even (x / u)) - x / u\<bar> * u \<le> 1 / 2 * u"
    using round_half_even_nearest u by (intro mult_right_mono) auto
  moreover have "\<bar>of_int (round_half_even (x / u)) - x / u\<bar> * u =
        \<bar>of_int (round_half_even (x / u)) * u - x\<bar>"
  proof -
    have "(of_int (round_half_even (x / u)) - x / u) * u =
          of_int (round_half_even (x / u)) * u - x"
      using u by (simp add: left_diff_distrib)
    then have "\<bar>of_int (round_half_even (x / u)) * u - x\<bar> =
          \<bar>of_int (round_half_even (x / u)) - x / u\<bar> * \<bar>u\<bar>"
      by (simp only: abs_mult [symmetric])
    then show ?thesis using u by (simp only: abs_of_pos)
  qed
  ultimately have "\<bar>round_double x - x\<bar> \<le> u / 2" by (simp add: r)
  then show ?thesis using r unfolding u_def by blast
qed

text \<open>
  C2. At double precision the claim fails: for the Julian Date 2451544 and the longitude
  80.52502899628966 the sum \<open>theta0 + longitude\<close> is the double \<open>- 2 ^ - 46\<close>, its remainder
  is negative, and \<open>lst + 360\<close> rounds to 360 itself, which the function returns.
\<close>

theorem C2_localSiderealTime_returns_360:
  "getLocalSiderealTime_double 2451544 (round_double 80.52502899628966) = 360"
proof -
  have d: "round_double (2451544 - 2451545.0) = - 1"
    by (simp add: round_double_def double_exponent_def pow2_def round_half_even_def
        compute_bitlen Let_def)
  have T: "round_double (- 1 / 36525) = - (8080709245156819 / 295147905179352825856)"
    by (simp add: round_double_def double_exponent_def pow2_def round_half_even_def
        compute_bitlen Let_def)
  have A: "round_double 280.46061837 = 1233478844124249 / 4398046511104"
    by (simp add: round_double_def double_exponent_def pow2_def round_half_even_def
        compute_bitlen Let_def)
  have B: "round_double 360.98564736629 = 3175263333915861 / 8796093022208"
    by (simp add: round_double_def double_exponent_def pow2_def round_half_even_def
        compute_bitlen Let_def)
  have C: "round_double 0.000387933 = 7156100768746367 / 18446744073709551616"
    by (simp add: round_double_def double_exponent_def pow2_def round_half_even_def
        compute_bitlen Let_def)
  have Bd: "round_double (3175263333915861 / 8796093022208 * - 1) =
      - (3175263333915861 / 8796093022208)"
    by (simp add: round_double_def double_exponent_def pow2_def round_half_even_def
        compute_bitlen Let_def)
  have ABd: "round_double (1233478844124249 / 4398046511104 + - (3175263333915861 / 8796093022208)) =
      - (708305645667363 / 8796093022208)"
    by (simp add: round_double_def double_exponent_def pow2_def round_half_even_def
        compute_bitlen Let_def)
  have CT: "round_double (7156100768746367 / 18446744073709551616 * - (8080709245156819 / 295147905179352825856)) =
      - (1605004175155927 / 151115727451828646838272)"
    by (simp add: round_double_def double_exponent_def pow2_def round_half_even_def
        compute_bitlen Let_def)
  have CTT: "round_double (- (1605004175155927 / 151115727451828646838272) * - (8080709245156819 / 295147905179352825856)) =
      5759647015634159 / 19807040628566084398385987584"
    by (simp add: round_double_def double_exponent_def pow2_def round_half_even_def
        compute_bitlen Let_def)
  have S1: "round_double (- (708305645667363 / 8796093022208) + 5759647015634159 / 19807040628566084398385987584) =
      - (1416611291334721 / 17592186044416)"
    by (simp add: round_double_def double_exponent_def pow2_def round_half_even_def
        compute_bitlen Let_def)
  have TT: "round_double (- (8080709245156819 / 295147905179352825856) * - (8080709245156819 / 295147905179352825856)) =
      1812379743636541 / 2417851639229258349412352"
    by (simp add: round_double_def double_exponent_def pow2_def round_half_even_def
        compute_bitlen Let_def)
  have TTT: "round_double (1812379743636541 / 2417851639229258349412352 * - (8080709245156819 / 295147905179352825856)) =
      - (6503825811305371 / 316912650057057350374175801344)"
    by (simp add: round_double_def double_exponent_def pow2_def round_half_even_def
        compute_bitlen Let_def)
  have Q: "round_double (- (6503825811305371 / 316912650057057350374175801344) / 38710000) =
      - (1409404423438975 / 2658455991569831745807614120560689152)"
    by (simp add: round_double_def double_exponent_def pow2_def round_half_even_def
        compute_bitlen Let_def)
  have TH: "round_double (- (1416611291334721 / 17592186044416) - - (1409404423438975 / 2658455991569831745807614120560689152)) =
      - (1416611291334721 / 17592186044416)"
    by (simp add: round_double_def double_exponent_def pow2_def round_half_even_def
        compute_bitlen Let_def)
  have L: "round_double 80.52502899628966 = 5666445165338883 / 70368744177664"
    by (simp add: round_double_def double_exponent_def pow2_def round_half_even_def
        compute_bitlen Let_def)
  have S: "round_double (- (1416611291334721 / 17592186044416) + 5666445165338883 / 70368744177664) =
      - (1 / 70368744177664)"
    by (simp add: round_double_def double_exponent_def pow2_def round_half_even_def
        compute_bitlen Let_def)
  have X: "round_double (- (1 / 70368744177664) + 360) = 360"
    by (simp add: round_double_def double_exponent_def pow2_def round_half_even_def
        compute_bitlen Let_def)
  have R: "js_rem (- (1 / 70368744177664)) 360 = - (1 / 70368744177664)"
    by (simp add: js_rem_def ceiling_unique)
  show ?thesis
    unfolding getLocalSiderealTime_double_def Let_def
      d T A B C Bd ABd CT CTT S1 TT TTT Q TH L S R X
    by simp
qed

section \<open>Ranges of the coordinates\<close>

text \<open>
  The bounds of this section and of the section on the azimuth are bounds of the engine
  read in exact arithmetic.
\<close>

lemma lin_bound:
  fixes A B x :: real
  assumes x: "\<bar>x\<bar> \<le> 1" and p: "\<bar>A + B\<bar> \<le> 1" and m: "\<bar>A - B\<bar> \<le> 1"
  shows "\<bar>A + B * x\<bar> \<le> 1"
proof -
  have e: "A + B * x = (1 + x) / 2 * (A + B) + (1 - x) / 2 * (A - B)"
    by (simp add: algebra_simps add_divide_distrib diff_divide_distrib)
  have u: "0 \<le> (1 + x) / 2" and v: "0 \<le> (1 - x) / 2" using x by auto
  have "(1 + x) / 2 * \<bar>A + B\<bar> \<le> (1 + x) / 2 * 1"
    by (rule mult_left_mono [OF p u])
  then have "\<bar>(1 + x) / 2 * (A + B)\<bar> \<le> (1 + x) / 2 * 1"
    by (simp only: abs_mult abs_of_nonneg [OF u])
  moreover have "(1 - x) / 2 * \<bar>A - B\<bar> \<le> (1 - x) / 2 * 1"
    by (rule mult_left_mono [OF m v])
  then have "\<bar>(1 - x) / 2 * (A - B)\<bar> \<le> (1 - x) / 2 * 1"
    by (simp only: abs_mult abs_of_nonneg [OF v])
  ultimately have "\<bar>(1 + x) / 2 * (A + B) + (1 - x) / 2 * (A - B)\<bar> \<le> (1 + x) / 2 + (1 - x) / 2"
    by linarith
  then show ?thesis unfolding e by (simp add: field_simps)
qed

lemma sinAlt_bounded:
  fixes d l h :: real
  shows "\<bar>sin d * sin l + cos d * cos l * cos h\<bar> \<le> 1"
proof -
  have p: "sin d * sin l + cos d * cos l = cos (d - l)" by (simp add: cos_diff)
  have m: "sin d * sin l - cos d * cos l = - cos (d + l)" by (simp add: cos_add)
  have "\<bar>sin d * sin l + (cos d * cos l) * cos h\<bar> \<le> 1"
    by (rule lin_bound) (simp_all only: p m abs_minus abs_cos_le_one)
  then show ?thesis by (simp add: mult.assoc)
qed

lemma moon_dec_bounded:
  fixes b e l :: real
  shows "\<bar>sin b * cos e + cos b * sin e * sin l\<bar> \<le> 1"
proof -
  have p: "sin b * cos e + cos b * sin e = sin (b + e)" by (simp add: sin_add)
  have m: "sin b * cos e - cos b * sin e = sin (b - e)" by (simp add: sin_diff)
  have "\<bar>sin b * cos e + (cos b * sin e) * sin l\<bar> \<le> 1"
    by (rule lin_bound) (simp_all only: p m abs_sin_le_one)
  then show ?thesis by (simp add: mult.assoc)
qed

lemma sun_dec_bounded:
  fixes e l :: real
  shows "\<bar>sin e * sin l\<bar> \<le> 1"
proof -
  have "\<bar>sin e\<bar> * \<bar>sin l\<bar> \<le> 1 * 1"
    by (intro mult_mono) auto
  then show ?thesis by (simp add: abs_mult)
qed

lemma rad2deg_arcsin_range:
  assumes "\<bar>y\<bar> \<le> 1"
  shows "- 90 \<le> rad2deg (arcsin y) \<and> rad2deg (arcsin y) \<le> 90"
proof -
  have "- (pi / 2) \<le> arcsin y \<and> arcsin y \<le> pi / 2"
    using assms by (intro arcsin_bounded) auto
  moreover have "- 90 \<le> arcsin y * 180 / pi \<longleftrightarrow> - 90 * pi \<le> arcsin y * 180"
    by (simp add: pos_le_divide_eq)
  moreover have "arcsin y * 180 / pi \<le> 90 \<longleftrightarrow> arcsin y * 180 \<le> 90 * pi"
    by (simp add: pos_divide_le_eq)
  ultimately show ?thesis unfolding rad2deg_def by linarith
qed

lemma atan2_range: "- pi < atan2 y x \<and> atan2 y x \<le> pi"
proof -
  have b: "- (pi / 2) < arctan (y / x)" "arctan (y / x) < pi / 2"
    by (rule arctan_lbound, rule arctan_ubound)
  have pp: "0 < pi" by simp
  show ?thesis
  proof (cases "0 < x")
    case True
    then show ?thesis using b pp by (simp add: atan2_def)
  next
    case False
    show ?thesis
    proof (cases "x < 0")
      case xn: True
      show ?thesis
      proof (cases "0 \<le> y")
        case True
        then have "y / x \<le> 0" using xn by (simp add: divide_nonneg_neg)
        then have "arctan (y / x) \<le> 0" by (simp add: arctan_le_zero_iff)
        then show ?thesis using xn True b pp by (simp add: atan2_def)
      next
        case yn: False
        then have "0 < y / x" using xn by (simp add: divide_neg_neg)
        then have "0 < arctan (y / x)" by (simp add: zero_less_arctan_iff)
        then show ?thesis using xn yn b pp by (simp add: atan2_def)
      qed
    next
      case x0: False
      have "atan2 y x = pi / 2 \<or> atan2 y x = - (pi / 2) \<or> atan2 y x = 0"
        using x0 False by (simp add: atan2_def)
      then show ?thesis using pp by linarith
    qed
  qed
qed

lemma ra_normalised:
  "0 \<le> js_rem (rad2deg (atan2 y x) + 360) 360 \<and> js_rem (rad2deg (atan2 y x) + 360) 360 < 360"
proof -
  have "- pi < atan2 y x" using atan2_range by blast
  moreover have "- 180 < atan2 y x * 180 / pi \<longleftrightarrow> - 180 * pi < atan2 y x * 180"
    by (simp add: pos_less_divide_eq)
  ultimately have "- 180 < rad2deg (atan2 y x)" unfolding rad2deg_def by linarith
  then have "0 \<le> rad2deg (atan2 y x) + 360" by simp
  then show ?thesis by (intro js_rem_nonneg) auto
qed

lemma getSunPosition_range:
  "0 \<le> eq_ra (getSunPosition jd) \<and> eq_ra (getSunPosition jd) < 360 \<and>
   - 90 \<le> eq_dec (getSunPosition jd) \<and> eq_dec (getSunPosition jd) \<le> 90"
  unfolding getSunPosition_def Let_def
  using ra_normalised rad2deg_arcsin_range [OF sun_dec_bounded] by simp

lemma getMoonPosition_range:
  "0 \<le> eq_ra (getMoonPosition jd) \<and> eq_ra (getMoonPosition jd) < 360 \<and>
   - 90 \<le> eq_dec (getMoonPosition jd) \<and> eq_dec (getMoonPosition jd) \<le> 90"
  unfolding getMoonPosition_def Let_def
  using ra_normalised rad2deg_arcsin_range [OF moon_dec_bounded] by simp

lemma altitude_range:
  "- 90 \<le> altitude (equatorialToHorizontal ra dec lat lon jd) \<and>
   altitude (equatorialToHorizontal ra dec lat lon jd) \<le> 90"
  unfolding equatorialToHorizontal_def Let_def
  using rad2deg_arcsin_range [OF sinAlt_bounded] by simp

section \<open>Moon phase\<close>

lemma half_one_minus_range:
  fixes c :: real
  shows "- 1 \<le> c \<Longrightarrow> c \<le> 1 \<Longrightarrow> 0 \<le> (1 - c) / 2 \<and> (1 - c) / 2 \<le> 1"
  by auto

lemma getMoonPhase_range: "0 \<le> getMoonPhase jd \<and> getMoonPhase jd \<le> 1"
proof -
  obtain x :: real where x: "getMoonPhase jd = (1 - cos x) / 2"
    unfolding getMoonPhase_def Let_def by blast
  show ?thesis unfolding x
    by (rule half_one_minus_range [OF cos_ge_minus_one cos_le_one])
qed

text \<open>
  C9. The illumination is \<open>(1 - cos diff) / 2\<close> for the difference \<open>diff\<close> of the right
  ascensions of the Moon and the Sun reduced by a multiple of 360 into \<open>[0, 360)\<close>, and it
  lies in \<open>[0, 1]\<close>.
\<close>

theorem C9_illumination:
  "\<exists>diff. (\<exists>k::int. diff = eq_ra (getMoonPosition jd) - eq_ra (getSunPosition jd)
                         + 360 * of_int k) \<and>
          0 \<le> diff \<and> diff < 360 \<and>
          getMoonPhase jd = (1 - cos (deg2rad diff)) / 2 \<and>
          0 \<le> getMoonPhase jd \<and> getMoonPhase jd \<le> 1"
proof -
  define m where "m = eq_ra (getMoonPosition jd)"
  define s where "s = eq_ra (getSunPosition jd)"
  define diff where "diff = (if m - s < 0 then m - s + 360 else m - s)"
  have mr: "0 \<le> m \<and> m < 360" unfolding m_def using getMoonPosition_range by blast
  have sr: "0 \<le> s \<and> s < 360" unfolding s_def using getSunPosition_range by blast
  have k: "\<exists>k::int. diff = m - s + 360 * of_int k"
  proof (cases "m - s < 0")
    case True
    then have "diff = m - s + 360 * of_int 1" by (simp add: diff_def)
    then show ?thesis by blast
  next
    case False
    then have "diff = m - s + 360 * of_int 0" by (simp add: diff_def)
    then show ?thesis by blast
  qed
  have r: "0 \<le> diff \<and> diff < 360" using mr sr by (simp add: diff_def)
  have p: "getMoonPhase jd = (1 - cos (deg2rad diff)) / 2"
    by (simp add: getMoonPhase_def Let_def diff_def m_def s_def)
  show ?thesis using k r p getMoonPhase_range [of jd] unfolding m_def s_def by blast
qed

lemma getMoonPhase_new_and_full:
  "(1 - cos (deg2rad 0)) / 2 = (0::real)" "(1 - cos (deg2rad 180)) / 2 = (1::real)"
  by (simp_all add: deg2rad_def)

section \<open>Planet positions\<close>

lemma getPlanetPosition_unknown:
  assumes "map_of planets_table nm = None" and "\<not> List.member Object_prototype nm"
  shows "getPlanetPosition nm jd = Null"
  using assms by (simp add: getPlanetPosition_def js_get_def)

lemma getPlanetPosition_Pluto: "getPlanetPosition ''Pluto'' jd = Null"
  by (rule getPlanetPosition_unknown) (simp_all add: planets_table_def Object_prototype_def)

text \<open>
  C6. The name \<open>constructor\<close> is not in the table of orbital elements, yet
  \<open>planets['constructor']\<close> is the inherited constructor, which is truthy: the guard
  \<open>if (!planets[planet]) return null\<close> lets it pass, and the result is the object with \<open>NaN\<close>
  coordinates whose magnitude is the inherited member of the magnitude table.
\<close>

theorem C6_inherited_name_is_not_null:
  "map_of planets_table ''constructor'' = None \<and>
   getPlanetPosition ''constructor'' jd = NaNs (Proto ''constructor'') \<and>
   getPlanetPosition ''constructor'' jd \<noteq> Null"
  by (simp add: getPlanetPosition_def getPlanetMagnitude_def js_get_def planets_table_def
      magnitudes_def Object_prototype_def)

section \<open>Bodies at the celestial pole\<close>

lemma deg2rad_90: "deg2rad 90 = pi / 2"
  by (simp add: deg2rad_def)

lemma getLocalSiderealTime_J2000: "getLocalSiderealTime 2451545 0 = 280.46061837"
  by (simp add: getLocalSiderealTime_def J2000_def js_rem_def)

text \<open>
  A body at the celestial pole (declination 90), seen from a latitude whose cosine is not
  zero: the quotient \<open>cosAz\<close> is the sign of that cosine.
\<close>

lemma celestial_pole:
  assumes c: "cos (deg2rad lat) \<noteq> 0"
  shows "equatorialToHorizontal ra 90 lat lon jd =
     \<lparr>altitude = rad2deg (arcsin (sin (deg2rad lat))),
      azimuth =
        (let az = (if 0 < cos (deg2rad lat) then 0 else 180)
         in if sin (deg2rad (getLocalSiderealTime jd lon - ra)) > 0
            then Fin (360 - az) else Fin az)\<rparr>"
proof -
  define l where "l = deg2rad lat"
  have ca: "cos (arcsin (sin l)) = \<bar>cos l\<bar>"
  proof -
    have "cos (arcsin (sin l)) = sqrt (1 - (sin l)\<^sup>2)"
      by (rule cos_arcsin) simp_all
    also have "1 - (sin l)\<^sup>2 = (cos l)\<^sup>2"
      using sin_cos_squared_add [of l] by linarith
    finally show ?thesis by simp
  qed
  have num: "1 - sin l * sin l = cos l * cos l"
    using sin_cos_squared_add [of l] by (simp add: power2_eq_square)
  have nz: "cos l * \<bar>cos l\<bar> \<noteq> 0" using c by (simp add: l_def)
  have q: "cos l * cos l / (cos l * \<bar>cos l\<bar>) = (if 0 < cos l then 1 else - 1)"
    using c by (auto simp: l_def [symmetric] abs_if)
  have cosAz: "js_div (1 - sin l * sin l) (cos l * cos (arcsin (sin l))) =
               Fin (if 0 < cos l then 1 else - 1)"
    unfolding ca num js_div_def using nz q by simp
  have az: "js_rad2deg (js_acos (js_max (- 1) (js_min 1
              (js_div (1 - sin l * sin l) (cos l * cos (arcsin (sin l))))))) =
            Fin (if 0 < cos l then 0 else 180)"
    unfolding cosAz by (simp add: rad2deg_def)
  show ?thesis
    unfolding equatorialToHorizontal_def Let_def deg2rad_90 l_def [symmetric]
    by (simp add: az [simplified])
qed

section \<open>Ranges of azimuth and planet coordinates\<close>

lemma clamp_cases:
  "js_max (- 1) (js_min 1 q) = NaN \<or>
   (\<exists>v. js_max (- 1) (js_min 1 q) = Fin v \<and> - 1 \<le> v \<and> v \<le> 1)"
  by (cases q) auto

lemma azimuth_range:
  "azimuth (equatorialToHorizontal ra dec lat lon jd) = NaN \<or>
   (\<exists>v. azimuth (equatorialToHorizontal ra dec lat lon jd) = Fin v \<and> 0 \<le> v \<and> v \<le> 360)"
proof -
  define q where "q = js_div
     (sin (deg2rad dec) - sin (deg2rad lat) *
        (sin (deg2rad dec) * sin (deg2rad lat) +
         cos (deg2rad dec) * cos (deg2rad lat) *
         cos (deg2rad (getLocalSiderealTime jd lon - ra))))
     (cos (deg2rad lat) *
      cos (arcsin (sin (deg2rad dec) * sin (deg2rad lat) +
         cos (deg2rad dec) * cos (deg2rad lat) *
         cos (deg2rad (getLocalSiderealTime jd lon - ra)))))"
  define az where "az = js_rad2deg (js_acos (js_max (- 1) (js_min 1 q)))"
  have az_cases: "az = NaN \<or> (\<exists>v. az = Fin v \<and> 0 \<le> v \<and> v \<le> 180)"
  proof -
    from clamp_cases [of q] show ?thesis
    proof
      assume "js_max (- 1) (js_min 1 q) = NaN"
      then show ?thesis by (simp add: az_def)
    next
      assume "\<exists>v. js_max (- 1) (js_min 1 q) = Fin v \<and> - 1 \<le> v \<and> v \<le> 1"
      then obtain v where v: "js_max (- 1) (js_min 1 q) = Fin v" "- 1 \<le> v" "v \<le> 1"
        by blast
      have a: "0 \<le> arccos v" "arccos v \<le> pi"
        using v by (simp_all add: arccos_lbound arccos_ubound)
      have "0 \<le> arccos v * 180 / pi" using a by simp
      moreover have "arccos v * 180 / pi \<le> 180" using a by (simp add: pos_divide_le_eq)
      ultimately have "az = Fin (rad2deg (arccos v)) \<and> 0 \<le> rad2deg (arccos v)
                       \<and> rad2deg (arccos v) \<le> 180"
        using v by (simp add: az_def rad2deg_def)
      then show ?thesis by blast
    qed
  qed
  have e: "azimuth (equatorialToHorizontal ra dec lat lon jd) =
           (if sin (deg2rad (getLocalSiderealTime jd lon - ra)) > 0 then js_minus 360 az else az)"
    by (simp add: equatorialToHorizontal_def Let_def az_def q_def)
  from az_cases show ?thesis
  proof
    assume "az = NaN"
    then show ?thesis by (simp add: e)
  next
    assume "\<exists>v. az = Fin v \<and> 0 \<le> v \<and> v \<le> 180"
    then obtain v where "az = Fin v" "0 \<le> v" "v \<le> 180" by blast
    then show ?thesis by (simp add: e)
  qed
qed

lemma azimuth_not_infinite:
  "azimuth (equatorialToHorizontal ra dec lat lon jd) \<noteq> PosInf \<and>
   azimuth (equatorialToHorizontal ra dec lat lon jd) \<noteq> NegInf"
  using azimuth_range [of ra dec lat lon jd] by auto

lemma getPlanetPosition_FoundD:
  assumes "getPlanetPosition nm jd = Found p"
  shows "\<exists>el. js_get planets_table nm = Val el \<and>
           planet_ra p = js_rem (el_L0 el + el_w el * (jd - J2000)) 360 \<and>
           planet_dec p = sin (deg2rad (el_i el)) *
             sin (deg2rad (js_rem (el_L0 el + el_w el * (jd - J2000)) 360)) * 10 \<and>
           planet_magnitude p = getPlanetMagnitude nm"
proof (cases "js_get planets_table nm")
  case Undefined
  with assms show ?thesis by (simp add: getPlanetPosition_def)
next
  case (Val el)
  with assms have "p = \<lparr>planet_ra = js_rem (el_L0 el + el_w el * (jd - J2000)) 360,
      planet_dec = sin (deg2rad (el_i el)) *
        sin (deg2rad (js_rem (el_L0 el + el_w el * (jd - J2000)) 360)) * 10,
      planet_magnitude = getPlanetMagnitude nm\<rparr>"
    by (simp add: getPlanetPosition_def Let_def)
  then show ?thesis using Val by simp
next
  case (Proto k)
  with assms show ?thesis by (simp add: getPlanetPosition_def)
qed

lemma getPlanetPosition_range:
  assumes "getPlanetPosition nm jd = Found p"
  shows "- 360 < planet_ra p \<and> planet_ra p < 360 \<and> \<bar>planet_dec p\<bar> \<le> 10"
proof -
  from getPlanetPosition_FoundD [OF assms] obtain el :: elements where
    r: "planet_ra p = js_rem (el_L0 el + el_w el * (jd - J2000)) 360" and
    d: "planet_dec p = sin (deg2rad (el_i el)) *
          sin (deg2rad (js_rem (el_L0 el + el_w el * (jd - J2000)) 360)) * 10"
    by blast
  have "\<bar>sin (deg2rad (el_i el)) *
        sin (deg2rad (js_rem (el_L0 el + el_w el * (jd - J2000)) 360))\<bar> \<le> 1"
    by (rule sun_dec_bounded)
  then have "\<bar>planet_dec p\<bar> \<le> 10" unfolding d by (simp add: abs_mult)
  then show ?thesis unfolding r using js_rem_360_bounds by simp
qed

lemma getPlanetPosition_after_epoch:
  assumes "getPlanetPosition nm jd = Found p" and "J2000 \<le> jd"
  shows "0 \<le> planet_ra p \<and> planet_ra p < 360"
proof -
  from getPlanetPosition_FoundD [OF assms(1)] obtain el :: elements where
    el: "js_get planets_table nm = Val el" and
    r: "planet_ra p = js_rem (el_L0 el + el_w el * (jd - J2000)) 360"
    by blast
  from el have "0 \<le> el_L0 el \<and> 0 \<le> el_w el"
    by (auto simp: js_get_def planets_table_def split: if_splits)
  then have "0 \<le> el_L0 el + el_w el * (jd - J2000)" using assms(2) by simp
  then show ?thesis unfolding r by (intro js_rem_nonneg) auto
qed

text \<open>
  C8. Two of the documented ranges are left: the right ascension of a planet is the
  remainder \<open>L % 360\<close>, which is negative for a date far enough before the epoch (here
  Mercury, 100 days before J2000), where the Sun, the Moon and the sidereal time add 360 to
  a negative remainder; and the azimuth \<open>360 - azimuth\<close> is 360 itself for a body at
  the celestial pole with a positive hour-angle sine.
\<close>

theorem C8_ranges_broken:
  "(\<exists>p. getPlanetPosition ''Mercury'' 2451445 = Found p \<and> planet_ra p = - 156.983) \<and>
   equatorialToHorizontal 190.46061837 90 0 0 2451545 = \<lparr>altitude = 0, azimuth = Fin 360\<rparr>"
proof -
  have "js_rem (252.25 + 4.09233 * (2451445 - 2451545)) 360 = - 156.983"
    by (simp add: js_rem_def)
  then have a: "\<exists>p. getPlanetPosition ''Mercury'' 2451445 = Found p \<and> planet_ra p = - 156.983"
    by (simp add: getPlanetPosition_def js_get_def planets_table_def J2000_def Let_def)
  have "cos (deg2rad 0) \<noteq> 0" by (simp add: deg2rad_def)
  from celestial_pole [OF this, of "190.46061837" 0 2451545]
  have b: "equatorialToHorizontal 190.46061837 90 0 0 2451545 = \<lparr>altitude = 0, azimuth = Fin 360\<rparr>"
    by (simp add: getLocalSiderealTime_J2000 deg2rad_90 deg2rad_def [of 0] rad2deg_def)
  from a b show ?thesis by blast
qed

section \<open>Latitudes outside the documented range\<close>

lemma rad2deg_deg2rad: "rad2deg (deg2rad x) = x"
  by (simp add: rad2deg_def deg2rad_def)





section \<open>Objects above the horizon\<close>

lemma set_sort_insert: "set (sort_insert c x ys) = insert x (set ys)"
  by (induction ys) auto

lemma set_js_sort: "set (js_sort c xs) = set xs"
  by (induction xs) (simp_all add: js_sort_def set_sort_insert)

lemma visible_stars_altitude: "obj \<in> set (visible_stars jd app) \<Longrightarrow> 0 < obj_altitude obj"
  by (auto simp: visible_stars_def Let_def split: if_splits)

lemma visible_planets_altitude: "obj \<in> set (visible_planets jd app) \<Longrightarrow> 0 < obj_altitude obj"
  by (auto simp: visible_planets_def Let_def split: if_splits planet_result.splits)

lemma visible_moon_altitude: "obj \<in> set (visible_moon jd app) \<Longrightarrow> 0 < obj_altitude obj"
  by (auto simp: visible_moon_def Let_def split: if_splits)

lemma all_stars_altitude: "obj \<in> set (all_stars jd app) \<Longrightarrow> 0 < obj_altitude obj"
  by (auto simp: all_stars_def Let_def split: if_splits)

lemma all_planets_altitude: "obj \<in> set (all_planets jd app) \<Longrightarrow> 0 < obj_altitude obj"
  by (auto simp: all_planets_def Let_def split: if_splits planet_result.splits)

lemma all_moon_altitude: "obj \<in> set (all_moon jd app) \<Longrightarrow> 0 < obj_altitude obj"
  by (auto simp: all_moon_def Let_def split: if_splits)

lemma set_visibleObjects:
  "set (visibleObjects (calculateVisibleObjects now app)) =
   set (visible_stars (getJulianDate now) app) \<union>
   set (visible_planets (getJulianDate now) app) \<union>
   set (visible_moon (getJulianDate now) app)"
  by (simp add: calculateVisibleObjects_def Let_def set_js_sort Un_assoc)

lemma set_allObjects:
  "set (allObjects (calculateAllObjects now app)) =
   set (all_stars (getJulianDate now) app) \<union>
   set (all_planets (getJulianDate now) app) \<union>
   set (all_moon (getJulianDate now) app)"
  by (simp add: calculateAllObjects_def Let_def set_js_sort Un_assoc)

text \<open>
  C3. Every object that either facade returns has an altitude strictly above 0.
\<close>

theorem C3_above_horizon:
  "(\<forall>obj \<in> set (visibleObjects (calculateVisibleObjects now app)). 0 < obj_altitude obj) \<and>
   (\<forall>obj \<in> set (allObjects (calculateAllObjects now mapp)). 0 < obj_altitude obj)"
  unfolding set_visibleObjects set_allObjects
  using visible_stars_altitude visible_planets_altitude visible_moon_altitude
    all_stars_altitude all_planets_altitude all_moon_altitude
  by blast

lemma getJulianDate_J2000: "getJulianDate 946728000000 = 2451545"
  by (simp add: getJulianDate_def)

lemma altitude_at_north_pole:
  assumes "- 90 \<le> dec" "dec \<le> 90"
  shows "altitude (equatorialToHorizontal ra dec 90 lon jd) = dec"
proof -
  have a: "pi * (- 90) \<le> pi * dec" using assms(1) by (intro mult_left_mono) auto
  have b: "pi * dec \<le> pi * 90" using assms(2) by (intro mult_left_mono) auto
  have e: "deg2rad dec = pi * dec / 180" by (simp add: deg2rad_def mult.commute)
  have "- (pi / 2) \<le> deg2rad dec" "deg2rad dec \<le> pi / 2"
    unfolding e using a b by linarith+
  then have "arcsin (sin (deg2rad dec)) = deg2rad dec" by (rule arcsin_sin)
  then show ?thesis
    by (simp add: equatorialToHorizontal_def Let_def deg2rad_90 rad2deg_deg2rad)
qed

lemma all_stars_member:
  assumes "star \<in> set (map_stars app)"
    and "0 < altitude (equatorialToHorizontal (star_ra star) (star_dec star)
              (map_latitude app) (map_longitude app) jd)"
  shows "\<exists>obj \<in> set (all_stars jd app). obj_name obj = star_name star"
  using assms by (auto simp: all_stars_def Let_def intro!: bexI [of _ star])

lemma Polaris_in_getStars:
  "\<lparr>star_id = 40, star_name = ''Polaris'', star_ra = raHoursToDegrees 2.530,
    star_dec = 89.264, star_magnitude = 1.98, star_spectralClass = ''F7Ib'',
    star_altitude = None, star_azimuth = None\<rparr> \<in> set getStars"
  by (simp add: getStars_def STAR_CATALOG_def)


lemma visible_stars_member:
  assumes "star \<in> set (stars app)"
    and "0 < altitude (equatorialToHorizontal (star_ra star) (star_dec star)
              (latitude app) (longitude app) jd)"
    and "in_field_of_view app (equatorialToHorizontal (star_ra star) (star_dec star)
              (latitude app) (longitude app) jd)"
  shows "\<exists>obj \<in> set (visible_stars jd app). obj_name obj = star_name star"
  using assms by (auto simp: visible_stars_def Let_def intro!: bexI [of _ star])

lemma deg2rad_30: "deg2rad 30 = pi / 6"
  by (simp add: deg2rad_def)

text \<open>
  The celestial pole seen from latitude 30 on the meridian: altitude 30, due north.
\<close>

lemma pole_from_latitude_30:
  "equatorialToHorizontal 280.46061837 90 30 0 2451545 = \<lparr>altitude = 30, azimuth = Fin 0\<rparr>"
proof -
  have nz: "cos (deg2rad 30) \<noteq> 0" and pos: "0 < cos (deg2rad 30)"
    by (simp_all add: deg2rad_30 cos_30)
  have "arcsin (sin (pi / 6)) = pi / 6"
    by (rule arcsin_sin) (use pi_gt_zero in linarith)+
  then have a: "rad2deg (arcsin (sin (deg2rad 30))) = 30"
    by (simp only: deg2rad_30) (simp add: rad2deg_def)
  show ?thesis
    unfolding celestial_pole [OF nz] Let_def a getLocalSiderealTime_J2000
    using pos by (simp add: deg2rad_def [of 0])
qed

theorem C3_above_horizon_witness:
  "(\<exists>obj \<in> set (allObjects (calculateAllObjects 946728000000
        \<lparr>map_latitude = 90, map_longitude = 0, map_stars = getStars, allObjects = []\<rparr>)).
      obj_name obj = ''Polaris'' \<and> 0 < obj_altitude obj) \<and>
   (\<exists>obj \<in> set (visibleObjects (calculateVisibleObjects 946728000000
        \<lparr>latitude = 30, longitude = 0, alpha = 0, beta = 60, compassOffset = 0, fov = 60,
         stars = [\<lparr>star_id = 0, star_name = ''Pole'', star_ra = 280.46061837, star_dec = 90,
                   star_magnitude = 2, star_spectralClass = ''A0'',
                   star_altitude = None, star_azimuth = None\<rparr>],
         visibleObjects = []\<rparr>)).
      obj_name obj = ''Pole'' \<and> 0 < obj_altitude obj)"
proof -
  define mapp where "mapp =
    \<lparr>map_latitude = 90, map_longitude = 0, map_stars = getStars, allObjects = []\<rparr>"
  define app where "app =
    \<lparr>latitude = 30, longitude = 0, alpha = 0, beta = 60, compassOffset = 0, fov = 60,
     stars = [\<lparr>star_id = 0, star_name = ''Pole'', star_ra = 280.46061837, star_dec = 90,
               star_magnitude = 2, star_spectralClass = ''A0'',
               star_altitude = None, star_azimuth = None\<rparr>],
     visibleObjects = []\<rparr>"
  have "\<exists>obj \<in> set (all_stars 2451545 mapp). obj_name obj = star_name
     \<lparr>star_id = 40, star_name = ''Polaris'', star_ra = raHoursToDegrees 2.530,
      star_dec = 89.264, star_magnitude = 1.98, star_spectralClass = ''F7Ib'',
      star_altitude = None, star_azimuth = None\<rparr>"
  proof (rule all_stars_member)
    have "map_stars mapp = getStars" by (simp add: mapp_def)
    then show "\<lparr>star_id = 40, star_name = ''Polaris'', star_ra = raHoursToDegrees 2.530,
      star_dec = 89.264, star_magnitude = 1.98, star_spectralClass = ''F7Ib'',
      star_altitude = None, star_azimuth = None\<rparr> \<in> set (map_stars mapp)"
      using Polaris_in_getStars by simp
  qed (simp add: mapp_def altitude_at_north_pole)
  then obtain p where p: "p \<in> set (allObjects (calculateAllObjects 946728000000 mapp))"
      "obj_name p = ''Polaris''"
    unfolding set_allObjects getJulianDate_J2000 by auto
  have "angleDifference 0 0 = 0"
    by (simp add: angleDifference_def)
  then have fv: "in_field_of_view app \<lparr>altitude = 30, azimuth = Fin 0\<rparr>"
    by (simp add: in_field_of_view_def app_def js_rem_def)
  have "\<exists>obj \<in> set (visible_stars 2451545 app). obj_name obj = star_name
     \<lparr>star_id = 0, star_name = ''Pole'', star_ra = 280.46061837, star_dec = 90,
               star_magnitude = 2, star_spectralClass = ''A0'',
               star_altitude = None, star_azimuth = None\<rparr>"
    by (rule visible_stars_member)
       (use fv in \<open>simp_all add: app_def pole_from_latitude_30 [simplified]\<close>)
  then obtain q where q: "q \<in> set (visibleObjects (calculateVisibleObjects 946728000000 app))"
      "obj_name q = ''Pole''"
    unfolding set_visibleObjects getJulianDate_J2000 by auto
  from C3_above_horizon [of 946728000000 app mapp] p(1) q(1)
  have "0 < obj_altitude p" "0 < obj_altitude q" by blast+
  with p q show ?thesis unfolding mapp_def app_def by blast
qed

section \<open>Order of the result\<close>

lemma sort_insert_insort_key:
  assumes "\<forall>y \<in> set ys. not_after (c x y) = (f x \<le> f y)"
  shows "sort_insert c x ys = insort_key f x ys"
  using assms by (induction ys) auto

lemma js_sort_sort_key:
  assumes "\<forall>x \<in> set xs. \<forall>y \<in> set xs. not_after (c x y) = (f x \<le> f y)"
  shows "js_sort c xs = sort_key f xs"
  using assms
proof (induction xs)
  case Nil
  show ?case by (simp add: js_sort_def)
next
  case (Cons x xs)
  then have ih: "js_sort c xs = sort_key f xs" by simp
  have "js_sort c (x # xs) = sort_insert c x (js_sort c xs)" by (simp add: js_sort_def)
  also have "\<dots> = sort_insert c x (sort_key f xs)" by (simp only: ih)
  also have "\<dots> = insort_key f x (sort_key f xs)"
    by (rule sort_insert_insort_key) (use Cons.prems in simp)
  finally show ?case by simp
qed

text \<open>
  On entries whose magnitudes are all numbers, the sort gives a list ordered by magnitude
  in which entries of equal magnitude keep the order they had.
\<close>

lemma js_sort_magnitude:
  assumes num: "\<forall>obj \<in> set xs. \<exists>m. obj_magnitude obj = Val m"
  shows "(\<exists>ms. map obj_magnitude (js_sort compare_magnitude xs) = map Val ms \<and> sorted ms) \<and>
         (\<forall>v. filter (\<lambda>obj. obj_magnitude obj = v) (js_sort compare_magnitude xs) =
              filter (\<lambda>obj. obj_magnitude obj = v) xs)"
proof -
  define f where "f = (\<lambda>obj::sky_object. case obj_magnitude obj of Val m \<Rightarrow> m | _ \<Rightarrow> 0)"
  have fv: "obj_magnitude obj = Val (f obj)" if "obj \<in> set xs" for obj
    using num that by (auto simp: f_def)
  have "\<forall>x \<in> set xs. \<forall>y \<in> set xs. not_after (compare_magnitude x y) = (f x \<le> f y)"
    by (simp add: compare_magnitude_def fv)
  then have e: "js_sort compare_magnitude xs = sort_key f xs"
    by (rule js_sort_sort_key)
  have m: "map obj_magnitude (sort_key f xs) = map Val (map f (sort_key f xs))"
    by (simp add: fv)
  have s: "sorted (map f (sort_key f xs))" by (rule sorted_sort_key)
  have st: "filter (\<lambda>obj. obj_magnitude obj = v) (sort_key f xs) =
            filter (\<lambda>obj. obj_magnitude obj = v) xs" for v
  proof (cases "\<exists>m. v = Val m")
    case True
    then obtain m where v: "v = Val m" by blast
    have "filter (\<lambda>obj. obj_magnitude obj = v) (sort_key f xs) =
          filter (\<lambda>obj. f obj = m) (sort_key f xs)"
      by (rule filter_cong) (simp_all add: fv v)
    also have "\<dots> = filter (\<lambda>obj. f obj = m) xs" by (rule sort_key_stable)
    also have "\<dots> = filter (\<lambda>obj. obj_magnitude obj = v) xs"
      by (rule filter_cong) (simp_all add: fv v)
    finally show ?thesis .
  next
    case False
    then have "\<forall>obj \<in> set xs. obj_magnitude obj \<noteq> v" using fv by metis
    then show ?thesis by (simp add: filter_empty_conv [THEN iffD2])
  qed
  show ?thesis unfolding e using m s st by blast
qed

lemma planets_magnitude_Val: "nm \<in> set planets \<Longrightarrow> \<exists>m. getPlanetMagnitude nm = Val m"
proof -
  assume "nm \<in> set planets"
  then consider "nm = ''Mercury''" | "nm = ''Venus''" | "nm = ''Mars''" | "nm = ''Jupiter''"
    | "nm = ''Saturn''"
    by (auto simp: planets_def)
  then show ?thesis
  proof cases
    case 1
    have "getPlanetMagnitude ''Mercury'' = Val 5"
      by (simp add: getPlanetMagnitude_def js_get_def magnitudes_def)
    with 1 show ?thesis by blast
  qed (use getPlanetMagnitude_table in blast)+
qed

lemma visible_planets_member:
  assumes "obj \<in> set (visible_planets jd app)"
  shows "\<exists>nm p. nm \<in> set planets \<and> getPlanetPosition nm jd = Found p \<and>
           obj_type obj = ''planet'' \<and> obj_magnitude obj = planet_magnitude p"
  using assms unfolding visible_planets_def Let_def
  by (auto split: planet_result.splits if_splits) metis+

lemma all_planets_member:
  assumes "obj \<in> set (all_planets jd app)"
  shows "\<exists>nm p. nm \<in> set planets \<and> getPlanetPosition nm jd = Found p \<and>
           obj_type obj = ''planet'' \<and> obj_magnitude obj = planet_magnitude p"
  using assms unfolding all_planets_def Let_def
  by (auto split: planet_result.splits if_splits) metis+

lemma visible_stars_Val:
  "obj \<in> set (visible_stars jd app) \<Longrightarrow> obj_type obj = ''star'' \<and> (\<exists>m. obj_magnitude obj = Val m)"
  by (auto simp: visible_stars_def Let_def split: if_splits)

lemma visible_planets_Val:
  assumes "obj \<in> set (visible_planets jd app)"
  shows "obj_type obj = ''planet'' \<and> (\<exists>m. obj_magnitude obj = Val m)"
proof -
  from visible_planets_member [OF assms] obtain nm p where
    nm: "nm \<in> set planets" and p: "getPlanetPosition nm jd = Found p"
    and o: "obj_type obj = ''planet''" "obj_magnitude obj = planet_magnitude p"
    by blast
  from getPlanetPosition_FoundD [OF p] have "planet_magnitude p = getPlanetMagnitude nm" by blast
  then show ?thesis using planets_magnitude_Val [OF nm] o by simp
qed

lemma visible_moon_Val:
  "obj \<in> set (visible_moon jd app) \<Longrightarrow> obj_type obj = ''moon'' \<and> obj_magnitude obj = Val (- 12.74)"
  by (auto simp: visible_moon_def Let_def split: if_splits)

lemma all_stars_Val:
  "obj \<in> set (all_stars jd app) \<Longrightarrow> obj_type obj = ''star'' \<and> (\<exists>m. obj_magnitude obj = Val m)"
  by (auto simp: all_stars_def Let_def split: if_splits)

lemma all_planets_Val:
  assumes "obj \<in> set (all_planets jd app)"
  shows "obj_type obj = ''planet'' \<and> (\<exists>m. obj_magnitude obj = Val m)"
proof -
  from all_planets_member [OF assms] obtain nm p where
    nm: "nm \<in> set planets" and p: "getPlanetPosition nm jd = Found p"
    and o: "obj_type obj = ''planet''" "obj_magnitude obj = planet_magnitude p"
    by blast
  from getPlanetPosition_FoundD [OF p] have "planet_magnitude p = getPlanetMagnitude nm" by blast
  then show ?thesis using planets_magnitude_Val [OF nm] o by simp
qed

lemma all_moon_Val:
  "obj \<in> set (all_moon jd app) \<Longrightarrow> obj_type obj = ''moon'' \<and> obj_magnitude obj = Val (- 12.74)"
  by (auto simp: all_moon_def Let_def split: if_splits)

lemma sorted_result:
  assumes s: "\<And>obj. obj \<in> set ss \<Longrightarrow> obj_type obj = ''star'' \<and> (\<exists>m. obj_magnitude obj = Val m)"
    and p: "\<And>obj. obj \<in> set ps \<Longrightarrow> obj_type obj = ''planet'' \<and> (\<exists>m. obj_magnitude obj = Val m)"
    and m: "\<And>obj. obj \<in> set ms \<Longrightarrow> obj_type obj = ''moon'' \<and> obj_magnitude obj = Val (- 12.74)"
  shows "(\<exists>ms'. map obj_magnitude (js_sort compare_magnitude (ss @ ps @ ms)) = map Val ms' \<and>
               sorted ms') \<and>
         (\<forall>v. filter (\<lambda>obj. obj_magnitude obj = v) (js_sort compare_magnitude (ss @ ps @ ms)) =
              filter (\<lambda>obj. obj_magnitude obj = v) (ss @ ps @ ms)) \<and>
         list_all (\<lambda>obj. obj_magnitude obj = Val (- 12.74))
           (filter (\<lambda>obj. obj_type obj = ''moon'') (js_sort compare_magnitude (ss @ ps @ ms)))"
proof -
  have cases3: "obj \<in> set ss \<or> obj \<in> set ps \<or> obj \<in> set ms"
    if "obj \<in> set (ss @ ps @ ms)" for obj
    using that by auto
  have "\<forall>obj \<in> set (ss @ ps @ ms). \<exists>m. obj_magnitude obj = Val m"
  proof
    fix obj
    assume "obj \<in> set (ss @ ps @ ms)"
    from cases3 [OF this] show "\<exists>m. obj_magnitude obj = Val m"
      using s [of obj] p [of obj] m [of obj] by blast
  qed
  from js_sort_magnitude [OF this] have a:
    "(\<exists>ms'. map obj_magnitude (js_sort compare_magnitude (ss @ ps @ ms)) = map Val ms' \<and>
               sorted ms') \<and>
         (\<forall>v. filter (\<lambda>obj. obj_magnitude obj = v) (js_sort compare_magnitude (ss @ ps @ ms)) =
              filter (\<lambda>obj. obj_magnitude obj = v) (ss @ ps @ ms))" .
  have ne: "''star'' \<noteq> ''moon''" "''planet'' \<noteq> ''moon''" by simp_all
  have "\<forall>obj \<in> set (ss @ ps @ ms). obj_type obj = ''moon'' \<longrightarrow> obj_magnitude obj = Val (- 12.74)"
  proof (intro ballI impI)
    fix obj
    assume "obj \<in> set (ss @ ps @ ms)" and t: "obj_type obj = ''moon''"
    from cases3 [OF this(1)] show "obj_magnitude obj = Val (- 12.74)"
      using s [of obj] p [of obj] m [of obj] t ne by metis
  qed
  then have b: "list_all (\<lambda>obj. obj_magnitude obj = Val (- 12.74))
           (filter (\<lambda>obj. obj_type obj = ''moon'') (js_sort compare_magnitude (ss @ ps @ ms)))"
    unfolding list_all_iff set_filter set_js_sort by blast
  from a b show ?thesis by blast
qed


text \<open>
  C4. The result of either facade is in non-decreasing order of magnitude; entries of equal
  magnitude stand in the order in which they were generated (the stars in the order of the
  star list, then the planets, then the Moon); and every Moon entry has magnitude -12.74.
\<close>

theorem C4_sorted_by_magnitude:
  "((\<exists>ms. map obj_magnitude (visibleObjects (calculateVisibleObjects now app)) = map Val ms \<and>
          sorted ms) \<and>
    (\<forall>v. filter (\<lambda>obj. obj_magnitude obj = v) (visibleObjects (calculateVisibleObjects now app)) =
         filter (\<lambda>obj. obj_magnitude obj = v)
           (visible_stars (getJulianDate now) app @ visible_planets (getJulianDate now) app @
            visible_moon (getJulianDate now) app)) \<and>
    list_all (\<lambda>obj. obj_magnitude obj = Val (- 12.74))
      (filter (\<lambda>obj. obj_type obj = ''moon'') (visibleObjects (calculateVisibleObjects now app)))) \<and>
   ((\<exists>ms. map obj_magnitude (allObjects (calculateAllObjects now mapp)) = map Val ms \<and>
          sorted ms) \<and>
    (\<forall>v. filter (\<lambda>obj. obj_magnitude obj = v) (allObjects (calculateAllObjects now mapp)) =
         filter (\<lambda>obj. obj_magnitude obj = v)
           (all_stars (getJulianDate now) mapp @ all_planets (getJulianDate now) mapp @
            all_moon (getJulianDate now) mapp)) \<and>
    list_all (\<lambda>obj. obj_magnitude obj = Val (- 12.74))
      (filter (\<lambda>obj. obj_type obj = ''moon'') (allObjects (calculateAllObjects now mapp))))"
proof -
  have v: "visibleObjects (calculateVisibleObjects now app) =
     js_sort compare_magnitude
       (visible_stars (getJulianDate now) app @ visible_planets (getJulianDate now) app @
        visible_moon (getJulianDate now) app)"
    by (simp add: calculateVisibleObjects_def Let_def)
  have a: "allObjects (calculateAllObjects now mapp) =
     js_sort compare_magnitude
       (all_stars (getJulianDate now) mapp @ all_planets (getJulianDate now) mapp @
        all_moon (getJulianDate now) mapp)"
    by (simp add: calculateAllObjects_def Let_def)
  note V = sorted_result [of "visible_stars (getJulianDate now) app"
    "visible_planets (getJulianDate now) app" "visible_moon (getJulianDate now) app",
    OF visible_stars_Val visible_planets_Val visible_moon_Val]
  note A = sorted_result [of "all_stars (getJulianDate now) mapp"
    "all_planets (getJulianDate now) mapp" "all_moon (getJulianDate now) mapp",
    OF all_stars_Val all_planets_Val all_moon_Val]
  show ?thesis unfolding v a by (rule conjI [OF V A])
qed

section \<open>Order of the star entries\<close>

lemma concat_map_if:
  "concat (map (\<lambda>x. if P x then [g x] else []) xs) = map g (filter P xs)"
  by (induction xs) simp_all

lemma all_stars_order:
  "map obj_catalogIndex (all_stars jd app) =
   map (\<lambda>star. Some (star_id star))
     (filter (\<lambda>star. 0 < altitude (equatorialToHorizontal (star_ra star) (star_dec star)
                (map_latitude app) (map_longitude app) jd)) (map_stars app))"
  by (simp add: all_stars_def Let_def concat_map_if comp_def)

lemma visible_stars_order:
  "map obj_name (visible_stars jd app) =
   map star_name
     (filter (\<lambda>star. 0 < altitude (equatorialToHorizontal (star_ra star) (star_dec star)
                (latitude app) (longitude app) jd) \<and>
              in_field_of_view app (equatorialToHorizontal (star_ra star) (star_dec star)
                (latitude app) (longitude app) jd)) (stars app))"
proof -
  have "visible_stars jd app =
    concat (map (\<lambda>star.
      if 0 < altitude (equatorialToHorizontal (star_ra star) (star_dec star)
                (latitude app) (longitude app) jd) \<and>
         in_field_of_view app (equatorialToHorizontal (star_ra star) (star_dec star)
                (latitude app) (longitude app) jd)
      then [\<lparr>obj_type = ''star'', obj_name = star_name star,
             obj_magnitude = Val (star_magnitude star),
             obj_altitude = altitude (equatorialToHorizontal (star_ra star) (star_dec star)
                (latitude app) (longitude app) jd),
             obj_azimuth = azimuth (equatorialToHorizontal (star_ra star) (star_dec star)
                (latitude app) (longitude app) jd),
             obj_phase = None, obj_spectralClass = None, obj_catalogIndex = None\<rparr>]
      else []) (stars app))"
    unfolding visible_stars_def Let_def
    by (intro arg_cong [where f = concat] map_cong refl) simp
  then show ?thesis by (simp add: concat_map_if comp_def)
qed

section \<open>Effect of a query on the star records\<close>

lemma getStars_first:
  "\<exists>s ss. getStars = s # ss \<and> star_altitude s = None"
  by (simp add: getStars_def STAR_CATALOG_def)

text \<open>
  C7, as stated, fails for the application: after one run of \<open>calculateVisibleObjects\<close> on
  the freshly loaded catalog the star records are no longer the loaded ones.
\<close>

theorem C7_star_records_mutated_counterexample:
  "stars (calculateVisibleObjects 946728000000
      \<lparr>latitude = 0, longitude = 0, alpha = 0, beta = 0, compassOffset = 0, fov = 60,
       stars = getStars, visibleObjects = []\<rparr>) \<noteq> getStars"
proof -
  obtain s ss where g: "getStars = s # ss" and n: "star_altitude s = None"
    using getStars_first by blast
  have "map star_altitude (stars (calculateVisibleObjects 946728000000
      \<lparr>latitude = 0, longitude = 0, alpha = 0, beta = 0, compassOffset = 0, fov = 60,
       stars = getStars, visibleObjects = []\<rparr>)) \<noteq> map star_altitude getStars"
    unfolding g using n by (simp add: calculateVisibleObjects_def Let_def)
  then show ?thesis by auto
qed

lemma in_field_of_view_stars:
  "in_field_of_view (app\<lparr>stars := ss, visibleObjects := vs\<rparr>) pos = in_field_of_view app pos"
  by (simp add: in_field_of_view_def cong: jsnum.case_cong)

lemma visible_stars_cong:
  assumes "map (\<lambda>s. (star_name s, star_ra s, star_dec s, star_magnitude s)) ss =
           map (\<lambda>s. (star_name s, star_ra s, star_dec s, star_magnitude s)) (stars app)"
  shows "visible_stars jd (app\<lparr>stars := ss, visibleObjects := vs\<rparr>) = visible_stars jd app"
proof -
  define F where "F = (\<lambda>(nm, r, d, mg).
        let pos = equatorialToHorizontal r d (latitude app) (longitude app) jd
        in if altitude pos > 0 then
             (if in_field_of_view app pos then
                [\<lparr>obj_type = ''star'', obj_name = nm,
                  obj_magnitude = Val mg,
                  obj_altitude = altitude pos, obj_azimuth = azimuth pos,
                  obj_phase = None, obj_spectralClass = None, obj_catalogIndex = None\<rparr>]
              else [])
           else [])"
  have a: "visible_stars jd (app\<lparr>stars := xs, visibleObjects := ys\<rparr>) =
        concat (map F (map (\<lambda>s. (star_name s, star_ra s, star_dec s, star_magnitude s)) xs))"
    for xs ys
    by (simp add: visible_stars_def F_def in_field_of_view_stars comp_def Let_def
        cong: if_cong)
  have "visible_stars jd app = visible_stars jd (app\<lparr>stars := stars app,
          visibleObjects := visibleObjects app\<rparr>)" by simp
  then show ?thesis unfolding a [where xs = ss and ys = vs] assms by (simp only: a)
qed

lemma visible_planets_frame:
  "visible_planets jd (app\<lparr>stars := ss, visibleObjects := vs\<rparr>) = visible_planets jd app"
  by (simp add: visible_planets_def in_field_of_view_stars Let_def
      cong: planet_result.case_cong if_cong)

lemma visible_moon_frame:
  "visible_moon jd (app\<lparr>stars := ss, visibleObjects := vs\<rparr>) = visible_moon jd app"
  by (simp add: visible_moon_def in_field_of_view_stars Let_def cong: if_cong)


text \<open>
  C7, amended. A query leaves the catalog fields of every star record, the location and
  the orientation unchanged, and the tables of orbital elements and magnitudes are
  constants. \<open>calculateVisibleObjects\<close> does write to the star records: it stores the
  computed altitude and azimuth on each of them. A second run at the same clock reading
  leaves the state as the first run left it. \<open>calculateAllObjects\<close> of the sky map writes
  nothing but \<open>allObjects\<close>.
\<close>

theorem C7_query_frame:
  "map (\<lambda>s. (star_id s, star_name s, star_ra s, star_dec s, star_magnitude s,
             star_spectralClass s)) (stars (calculateVisibleObjects now app)) =
   map (\<lambda>s. (star_id s, star_name s, star_ra s, star_dec s, star_magnitude s,
             star_spectralClass s)) (stars app) \<and>
   map (\<lambda>s. (star_altitude s, star_azimuth s)) (stars (calculateVisibleObjects now app)) =
   map (\<lambda>s. (Some (altitude (equatorialToHorizontal (star_ra s) (star_dec s)
                       (latitude app) (longitude app) (getJulianDate now))),
             Some (azimuth (equatorialToHorizontal (star_ra s) (star_dec s)
                       (latitude app) (longitude app) (getJulianDate now)))))
       (stars app) \<and>
   (latitude (calculateVisibleObjects now app), longitude (calculateVisibleObjects now app),
    alpha (calculateVisibleObjects now app), beta (calculateVisibleObjects now app),
    compassOffset (calculateVisibleObjects now app), fov (calculateVisibleObjects now app)) =
   (latitude app, longitude app, alpha app, beta app, compassOffset app, fov app) \<and>
   calculateVisibleObjects now (calculateVisibleObjects now app) =
   calculateVisibleObjects now app \<and>
   map_stars (calculateAllObjects now mapp) = map_stars mapp \<and>
   map_latitude (calculateAllObjects now mapp) = map_latitude mapp \<and>
   map_longitude (calculateAllObjects now mapp) = map_longitude mapp \<and>
   calculateAllObjects now (calculateAllObjects now mapp) = calculateAllObjects now mapp"
proof -
  define jd where "jd = getJulianDate now"
  define upd where "upd = (\<lambda>la lo (star::star).
     star\<lparr>star_altitude := Some (altitude (equatorialToHorizontal (star_ra star)
                (star_dec star) la lo jd)),
          star_azimuth := Some (azimuth (equatorialToHorizontal (star_ra star)
                (star_dec star) la lo jd))\<rparr>)"
  define S where "S = map (upd (latitude app) (longitude app)) (stars app)"
  define V where "V = js_sort compare_magnitude
     (visible_stars jd app @ visible_planets jd app @ visible_moon jd app)"
  have run: "calculateVisibleObjects now a =
     a\<lparr>stars := map (upd (latitude a) (longitude a)) (stars a),
       visibleObjects := js_sort compare_magnitude
         (visible_stars jd a @ visible_planets jd a @ visible_moon jd a)\<rparr>" for a
    by (simp add: calculateVisibleObjects_def Let_def jd_def upd_def)
  have first: "calculateVisibleObjects now app = app\<lparr>stars := S, visibleObjects := V\<rparr>"
    by (simp add: run S_def V_def)
  have core: "map (\<lambda>s. (star_id s, star_name s, star_ra s, star_dec s, star_magnitude s,
             star_spectralClass s)) S =
     map (\<lambda>s. (star_id s, star_name s, star_ra s, star_dec s, star_magnitude s,
             star_spectralClass s)) (stars app)"
    by (simp add: S_def upd_def comp_def)
  have core4: "map (\<lambda>s. (star_name s, star_ra s, star_dec s, star_magnitude s)) S =
     map (\<lambda>s. (star_name s, star_ra s, star_dec s, star_magnitude s)) (stars app)"
    by (simp add: S_def upd_def comp_def)
  have pos: "map (\<lambda>s. (star_altitude s, star_azimuth s)) S =
     map (\<lambda>s. (Some (altitude (equatorialToHorizontal (star_ra s) (star_dec s)
                       (latitude app) (longitude app) jd)),
             Some (azimuth (equatorialToHorizontal (star_ra s) (star_dec s)
                       (latitude app) (longitude app) jd)))) (stars app)"
    by (simp add: S_def upd_def comp_def)
  have again: "map (upd (latitude app) (longitude app)) S = S"
    by (simp add: S_def upd_def comp_def)
  have idem: "calculateVisibleObjects now (app\<lparr>stars := S, visibleObjects := V\<rparr>) =
     app\<lparr>stars := S, visibleObjects := V\<rparr>"
    unfolding run [of "app\<lparr>stars := S, visibleObjects := V\<rparr>"]
      visible_stars_cong [OF core4] visible_planets_frame visible_moon_frame
    by (simp add: again V_def)
  have m: "calculateAllObjects now (calculateAllObjects now mapp) = calculateAllObjects now mapp"
  proof -
    have "all_stars j (mapp\<lparr>allObjects := xs\<rparr>) = all_stars j mapp" for j xs
      by (simp add: all_stars_def)
    moreover have "all_planets j (mapp\<lparr>allObjects := xs\<rparr>) = all_planets j mapp" for j xs
      by (simp add: all_planets_def cong: planet_result.case_cong)
    moreover have "all_moon j (mapp\<lparr>allObjects := xs\<rparr>) = all_moon j mapp" for j xs
      by (simp add: all_moon_def)
    ultimately show ?thesis by (simp add: calculateAllObjects_def Let_def)
  qed
  show ?thesis
    unfolding first idem
    using core pos m by (simp add: jd_def calculateAllObjects_def Let_def)
qed

section \<open>The latitude is not checked\<close>




end
